theory Spec2Isabelle
  imports Complex_Main "HOL-Library.AList"
begin

section \<open>Floating-point values\<close>

text \<open>
  The program computes with numpy \<open>float64\<close> values. They are modelled by the type
  \<open>npfloat\<close>: a finite value is a real number, and the three special values of IEEE 754
  that numpy produces instead of raising (\<open>inf\<close>, \<open>-inf\<close>, \<open>nan\<close>) are constructors of
  their own. The model is an idealisation in three respects, which every theorem below
  inherits: finite arithmetic is exact (no rounding), no finite operation overflows or
  underflows, and zero has no sign (a zero divisor counts as \<open>+0.0\<close>).
  What numpy does at a zero divisor and at the square root of a negative number is written
  out: it returns \<open>inf\<close> or \<open>nan\<close> (with a RuntimeWarning), it does not raise.
\<close>

datatype npfloat = Fin real | PInf | NInf | NaN

datatype py_error = TypeError | ValueError | ZeroDivisionError | SolverError

definition inf_sgn :: "real \<Rightarrow> npfloat" where
  "inf_sgn a = (if 0 < a then PInf else if a < 0 then NInf else NaN)"

fun is_finite :: "npfloat \<Rightarrow> bool" where
  "is_finite (Fin a) = True"
| "is_finite PInf = False"
| "is_finite NInf = False"
| "is_finite NaN = False"

fun isnan :: "npfloat \<Rightarrow> bool" where
  "isnan NaN = True"
| "isnan (Fin a) = False"
| "isnan PInf = False"
| "isnan NInf = False"

fun fneg :: "npfloat \<Rightarrow> npfloat" where
  "fneg (Fin a) = Fin (- a)"
| "fneg PInf = NInf"
| "fneg NInf = PInf"
| "fneg NaN = NaN"

fun fadd :: "npfloat \<Rightarrow> npfloat \<Rightarrow> npfloat" where
  "fadd (Fin a) (Fin b) = Fin (a + b)"
| "fadd NaN y = NaN"
| "fadd x NaN = NaN"
| "fadd PInf NInf = NaN"
| "fadd NInf PInf = NaN"
| "fadd PInf y = PInf"
| "fadd x PInf = PInf"
| "fadd NInf y = NInf"
| "fadd x NInf = NInf"

definition fsub :: "npfloat \<Rightarrow> npfloat \<Rightarrow> npfloat" where
  "fsub x y = fadd x (fneg y)"

fun fmul :: "npfloat \<Rightarrow> npfloat \<Rightarrow> npfloat" where
  "fmul (Fin a) (Fin b) = Fin (a * b)"
| "fmul NaN y = NaN"
| "fmul x NaN = NaN"
| "fmul PInf (Fin b) = inf_sgn b"
| "fmul (Fin a) PInf = inf_sgn a"
| "fmul NInf (Fin b) = inf_sgn (- b)"
| "fmul (Fin a) NInf = inf_sgn (- a)"
| "fmul PInf PInf = PInf"
| "fmul PInf NInf = NInf"
| "fmul NInf PInf = NInf"
| "fmul NInf NInf = PInf"

text \<open>
  Division of numpy scalars: a zero divisor gives \<open>inf\<close>, \<open>-inf\<close> or \<open>nan\<close> by the sign of
  the dividend; nothing is raised.
\<close>

fun fdiv :: "npfloat \<Rightarrow> npfloat \<Rightarrow> npfloat" where
  "fdiv (Fin a) (Fin b) = (if b = 0 then inf_sgn a else Fin (a / b))"
| "fdiv NaN y = NaN"
| "fdiv x NaN = NaN"
| "fdiv (Fin a) PInf = Fin 0"
| "fdiv (Fin a) NInf = Fin 0"
| "fdiv PInf (Fin b) = (if 0 \<le> b then PInf else NInf)"
| "fdiv NInf (Fin b) = (if 0 \<le> b then NInf else PInf)"
| "fdiv PInf PInf = NaN"
| "fdiv PInf NInf = NaN"
| "fdiv NInf PInf = NaN"
| "fdiv NInf NInf = NaN"

fun fsqrt :: "npfloat \<Rightarrow> npfloat" where
  "fsqrt (Fin a) = (if a < 0 then NaN else Fin (sqrt a))"
| "fsqrt PInf = PInf"
| "fsqrt NInf = NaN"
| "fsqrt NaN = NaN"

section \<open>Arrays\<close>

text \<open>
  \<open>np.sum\<close> of a one-dimensional array; the sum of the empty array is \<open>0.0\<close>. In exact
  arithmetic the order of the additions does not matter.
\<close>

definition np_sum :: "npfloat list \<Rightarrow> npfloat" where
  "np_sum xs = foldr fadd xs (Fin 0)"

text \<open>
  \<open>np.sum\<close> of a pandas Series is \<open>Series.sum()\<close>, which skips the \<open>nan\<close> entries and adds up
  the others; the sum of none is \<open>0.0\<close>.
\<close>

definition series_sum :: "npfloat list \<Rightarrow> npfloat" where
  "series_sum xs = np_sum (filter (\<lambda>x. \<not> isnan x) xs)"

text \<open>
  \<open>series * array\<close> for a pandas Series on the left and a one-dimensional numpy array on
  the right: elementwise, an array of length one is broadcast, every other mismatch of the
  lengths raises ValueError. The result has the length of the Series.
\<close>

definition series_mul :: "npfloat list \<Rightarrow> npfloat list \<Rightarrow> py_error + npfloat list" where
  "series_mul m w =
     (if length w = length m then Inr (map2 fmul m w)
      else if length w = 1 then Inr (map (\<lambda>a. fmul a (hd w)) m)
      else Inl ValueError)"

text \<open>\<open>np.dot\<close> of two one-dimensional arrays, and of a matrix (a list of rows) with one.\<close>

definition np_dot :: "npfloat list \<Rightarrow> npfloat list \<Rightarrow> py_error + npfloat" where
  "np_dot a b =
     (if length a = length b then Inr (np_sum (map2 fmul a b)) else Inl ValueError)"

definition np_dot_mv :: "npfloat list list \<Rightarrow> npfloat list \<Rightarrow> py_error + npfloat list" where
  "np_dot_mv A v =
     (if list_all (\<lambda>row. length row = length v) A
      then Inr (map (\<lambda>row. np_sum (map2 fmul row v)) A)
      else Inl ValueError)"

section \<open>The optimizer object\<close>

text \<open>
  The fields of a \<open>PortfolioOptimizer\<close>. The three statistics fields are \<open>None\<close> until
  \<open>fetch_data\<close> has run. A DataFrame is a list of rows, a Series a list.
\<close>

record optimizer =
  tickers :: "string list"
  portfolio_size :: real
  returns_data :: "npfloat list list option"
  cov_matrix :: "npfloat list list option"
  avg_returns :: "npfloat list option"

definition init :: "string list \<Rightarrow> real \<Rightarrow> optimizer" where
  "init ts psize =
     \<lparr>tickers = ts, portfolio_size = psize, returns_data = None,
      cov_matrix = None, avg_returns = None\<rparr>"

section \<open>Scoring a weight vector\<close>

text \<open>
  \<open>calculate_portfolio_metrics\<close>, one definition per line of the source:
  \<^verbatim>\<open>portfolio_return = np.sum(self.avg_returns * weights) * 252\<close>,
  \<^verbatim>\<open>portfolio_volatility = np.sqrt(np.dot(weights.T, np.dot(self.cov_matrix * 252, weights)))\<close>,
  \<^verbatim>\<open>sharpe_ratio = portfolio_return / portfolio_volatility\<close>.
  A field that is still \<open>None\<close> raises TypeError at the multiplication. The product
  \<open>self.avg_returns * weights\<close> is a Series, so the first sum skips \<open>nan\<close>; the two
  \<open>np.dot\<close> work on arrays and do not.
\<close>

definition portfolio_return :: "optimizer \<Rightarrow> npfloat list \<Rightarrow> py_error + npfloat" where
  "portfolio_return self weights =
     (case avg_returns self of
        None \<Rightarrow> Inl TypeError
      | Some m \<Rightarrow>
          (case series_mul m weights of
             Inl e \<Rightarrow> Inl e
           | Inr p \<Rightarrow> Inr (fmul (series_sum p) (Fin 252))))"

definition portfolio_volatility :: "optimizer \<Rightarrow> npfloat list \<Rightarrow> py_error + npfloat" where
  "portfolio_volatility self weights =
     (case cov_matrix self of
        None \<Rightarrow> Inl TypeError
      | Some C \<Rightarrow>
          (case np_dot_mv (map (map (\<lambda>c. fmul c (Fin 252))) C) weights of
             Inl e \<Rightarrow> Inl e
           | Inr v \<Rightarrow>
               (case np_dot weights v of
                  Inl e \<Rightarrow> Inl e
                | Inr q \<Rightarrow> Inr (fsqrt q))))"

definition calculate_portfolio_metrics ::
  "optimizer \<Rightarrow> npfloat list \<Rightarrow> py_error + (npfloat \<times> npfloat \<times> npfloat)" where
  "calculate_portfolio_metrics self weights =
     (case portfolio_return self weights of
        Inl e \<Rightarrow> Inl e
      | Inr r \<Rightarrow>
          (case portfolio_volatility self weights of
             Inl e \<Rightarrow> Inl e
           | Inr v \<Rightarrow> Inr (r, v, fdiv r v)))"

text \<open>
  The scorer as the specification words it, over the reals: the annualised return
  \<open>252 * dot(m, w)\<close> and the quadratic form \<open>w\<^sup>T C w\<close>.
\<close>

definition spec_return :: "real list \<Rightarrow> real list \<Rightarrow> real" where
  "spec_return m w = 252 * (\<Sum>i<length w. m ! i * w ! i)"

definition spec_quadratic_form :: "real list list \<Rightarrow> real list \<Rightarrow> real" where
  "spec_quadratic_form C w = (\<Sum>i<length w. \<Sum>j<length w. w ! i * (C ! i ! j * w ! j))"

text \<open>
  The statistics are ready for vectors of length \<open>k\<close>: both fields are set, the mean vector
  has length \<open>k\<close> and the covariance matrix is \<open>k \<times> k\<close>. \<open>fetch_data\<close> establishes this.
\<close>

definition stats_ready :: "optimizer \<Rightarrow> nat \<Rightarrow> bool" where
  "stats_ready self k =
     (case (avg_returns self, cov_matrix self) of
        (Some m, Some C) \<Rightarrow>
          length m = k \<and> length C = k \<and> list_all (\<lambda>row. length row = k) C
      | _ \<Rightarrow> False)"

section \<open>Sampling a weight vector\<close>

text \<open>
  The global random source of numpy is a state \<open>g\<close> with a step function \<open>nxt\<close> that returns
  one draw and the next state. \<open>np.random.random(n)\<close> takes \<open>n\<close> draws in a row.
\<close>

fun np_random_random :: "('g \<Rightarrow> real \<times> 'g) \<Rightarrow> nat \<Rightarrow> 'g \<Rightarrow> real list \<times> 'g" where
  "np_random_random nxt 0 g = ([], g)"
| "np_random_random nxt (Suc n) g =
     (let (u, g1) = nxt g; (us, g2) = np_random_random nxt n g1 in (u # us, g2))"

text \<open>
  \<open>dict(pairs)\<close>: a key seen again keeps its place and takes the new value, a new key goes
  to the end. \<open>d.values()\<close> is \<open>map snd\<close>.
\<close>

definition py_dict :: "('k \<times> 'v) list \<Rightarrow> ('k \<times> 'v) list" where
  "py_dict kvs = foldl (\<lambda>d (k, v). AList.update k v d) [] kvs"

text \<open>
  \<open>generate_portfolio\<close>: the draws are divided by their sum in place
  (\<^verbatim>\<open>weights /= np.sum(weights)\<close>); there is no test of the sum and no second draw.
\<close>

definition generate_portfolio ::
  "('g \<Rightarrow> real \<times> 'g) \<Rightarrow> optimizer \<Rightarrow> 'g \<Rightarrow> (string \<times> npfloat) list \<times> 'g" where
  "generate_portfolio nxt self g =
     (let (us, g') = np_random_random nxt (length (tickers self)) g;
          weights = map Fin us;
          total = np_sum weights;
          weights = map (\<lambda>w. fdiv w total) weights
      in (py_dict (zip (tickers self) weights), g'))"

section \<open>The Monte Carlo run\<close>

record sim_row =
  row_return :: npfloat
  row_volatility :: npfloat
  row_sharpe_ratio :: npfloat
  row_weights :: "npfloat list"

text \<open>
  The body of \<^verbatim>\<open>for _ in range(num_simulations)\<close>, with the number of iterations left,
  the list \<open>results\<close> and the random state. An exception of the scorer ends the run.
\<close>

fun monte_carlo_loop ::
  "('g \<Rightarrow> real \<times> 'g) \<Rightarrow> optimizer \<Rightarrow> nat \<Rightarrow> sim_row list \<Rightarrow> 'g \<Rightarrow> (py_error + sim_row list) \<times> 'g"
where
  "monte_carlo_loop nxt self 0 results g = (Inr results, g)"
| "monte_carlo_loop nxt self (Suc k) results g =
     (let (d, g') = generate_portfolio nxt self g;
          weights = map snd d
      in case calculate_portfolio_metrics self weights of
           Inl e \<Rightarrow> (Inl e, g')
         | Inr (ret, vol, sharpe) \<Rightarrow>
             monte_carlo_loop nxt self k
               (results @ [\<lparr>row_return = ret, row_volatility = vol,
                             row_sharpe_ratio = sharpe, row_weights = weights\<rparr>]) g')"

text \<open>\<open>range(n)\<close> is empty for \<open>n \<le> 0\<close>: the loop runs \<open>nat n\<close> times.\<close>

definition run_monte_carlo ::
  "('g \<Rightarrow> real \<times> 'g) \<Rightarrow> optimizer \<Rightarrow> int \<Rightarrow> 'g \<Rightarrow> (py_error + sim_row list) \<times> 'g" where
  "run_monte_carlo nxt self num_simulations g =
     monte_carlo_loop nxt self (nat num_simulations) [] g"

text \<open>The weight vector of one trial, and the random state after it.\<close>

definition trial_weights :: "('g \<Rightarrow> real \<times> 'g) \<Rightarrow> optimizer \<Rightarrow> 'g \<Rightarrow> npfloat list" where
  "trial_weights nxt self g = map snd (fst (generate_portfolio nxt self g))"

definition trial_state :: "('g \<Rightarrow> real \<times> 'g) \<Rightarrow> optimizer \<Rightarrow> 'g \<Rightarrow> 'g" where
  "trial_state nxt self g = snd (generate_portfolio nxt self g)"

section \<open>The optimizer\<close>

text \<open>
  \<open>scipy.optimize.minimize\<close> is outside the program: it is a parameter \<open>minimize\<close> that takes
  the problem it is called with and returns an \<open>OptimizeResult\<close> (the final iterate \<open>x\<close> and
  the flag \<open>success\<close>) or raises.
\<close>

record constraint =
  ctype :: string
  cfun :: "npfloat list \<Rightarrow> npfloat"

record nlp =
  nlp_fun :: "npfloat list \<Rightarrow> py_error + npfloat"
  nlp_x0 :: "npfloat list"
  nlp_method :: string
  nlp_bounds :: "(npfloat \<times> npfloat) list"
  nlp_constraints :: constraint

record optimize_result =
  res_x :: "npfloat list"
  res_success :: bool

datatype py_value = Float npfloat | Dict "(string \<times> npfloat) list"

definition neg_sharpe_ratio :: "optimizer \<Rightarrow> npfloat list \<Rightarrow> py_error + npfloat" where
  "neg_sharpe_ratio self weights =
     (case calculate_portfolio_metrics self weights of
        Inl e \<Rightarrow> Inl e
      | Inr (ret, vol, sharpe) \<Rightarrow> Inr (fneg sharpe))"

text \<open>
  \<^verbatim>\<open>np.array([1/len(self.tickers)] * len(self.tickers))\<close>: the quotient is evaluated first
  and raises ZeroDivisionError for an empty list of tickers.
\<close>

definition initial_weights :: "optimizer \<Rightarrow> py_error + npfloat list" where
  "initial_weights self =
     (if length (tickers self) = 0 then Inl ZeroDivisionError
      else Inr (replicate (length (tickers self)) (Fin (1 / real (length (tickers self))))))"

text \<open>The arguments of the call of \<open>minimize\<close>.\<close>

definition slsqp_problem :: "optimizer \<Rightarrow> py_error + nlp" where
  "slsqp_problem self =
     (case initial_weights self of
        Inl e \<Rightarrow> Inl e
      | Inr w0 \<Rightarrow>
          Inr \<lparr>nlp_fun = neg_sharpe_ratio self,
               nlp_x0 = w0,
               nlp_method = ''SLSQP'',
               nlp_bounds = replicate (length (tickers self)) (Fin 0, Fin 1),
               nlp_constraints = \<lparr>ctype = ''eq'', cfun = (\<lambda>x. fsub (np_sum x) (Fin 1))\<rparr>\<rparr>)"

text \<open>
  \<open>optimize_portfolio\<close>. Of the solver's result only \<open>result.x\<close> is read. The parameter
  \<open>risk_free_rate\<close> occurs nowhere in the body. The returned dict has four keys.
\<close>

definition optimize_portfolio ::
  "(nlp \<Rightarrow> py_error + optimize_result) \<Rightarrow> optimizer \<Rightarrow> real \<Rightarrow> py_error + (string \<times> py_value) list"
where
  "optimize_portfolio minimize self risk_free_rate =
     (case slsqp_problem self of
        Inl e \<Rightarrow> Inl e
      | Inr p \<Rightarrow>
          (case minimize p of
             Inl e \<Rightarrow> Inl e
           | Inr result \<Rightarrow>
               (case calculate_portfolio_metrics self (res_x result) of
                  Inl e \<Rightarrow> Inl e
                | Inr (opt_return, opt_vol, opt_sharpe) \<Rightarrow>
                    Inr [(''weights'', Dict (py_dict (zip (tickers self) (res_x result)))),
                         (''return'', Float opt_return),
                         (''volatility'', Float opt_vol),
                         (''sharpe_ratio'', Float opt_sharpe)])))"

section \<open>Return statistics\<close>

text \<open>
  \<open>fetch_data\<close> builds the price table \<open>data\<close> from the answers of the price service, one
  column per distinct ticker; the service is outside the program, so the table is a
  parameter: its rows in date order, \<open>nan\<close> where a ticker has no price at a date. The
  statistics are computed from it by
  \<^verbatim>\<open>data.pct_change().dropna()\<close>, \<^verbatim>\<open>.cov()\<close> and \<^verbatim>\<open>.mean()\<close>.

  \<open>pct_change\<close> is \<open>data / data.shift(1) - 1\<close>; before pandas 3 it first fills a missing
  price with the last one above it, which the parameter \<open>pad\<close> says.
\<close>

fun ffill :: "npfloat list \<Rightarrow> npfloat list list \<Rightarrow> npfloat list list" where
  "ffill prev [] = []"
| "ffill prev (r # rs) =
     (let r' = map2 (\<lambda>p c. if isnan c then p else c) prev r in r' # ffill r' rs)"

definition pct_change :: "bool \<Rightarrow> nat \<Rightarrow> npfloat list list \<Rightarrow> npfloat list list" where
  "pct_change pad n rows =
     (let d = (if pad then ffill (replicate n NaN) rows else rows);
          shifted = replicate n NaN # butlast d
      in map2 (\<lambda>cur prev. map2 (\<lambda>c p. fsub (fdiv c p) (Fin 1)) cur prev) d shifted)"

definition dropna :: "npfloat list list \<Rightarrow> npfloat list list" where
  "dropna rows = filter (\<lambda>r. \<not> list_ex isnan r) rows"

definition column :: "nat \<Rightarrow> npfloat list list \<Rightarrow> npfloat list" where
  "column j rows = map (\<lambda>r. r ! j) rows"

text \<open>The mean of a column: the sum over the count, \<open>nan\<close> for no rows.\<close>

definition np_mean :: "npfloat list \<Rightarrow> npfloat" where
  "np_mean xs = fdiv (np_sum xs) (Fin (real (length xs)))"

text \<open>
  \<open>DataFrame.cov()\<close> of a table without \<open>nan\<close> is \<open>np.cov(mat.T, ddof=1)\<close>: the columns are
  centred, their products summed and multiplied by \<open>1 / fact\<close>, where \<open>fact\<close> is the
  number of rows less one, set to \<open>0.0\<close> when that is not positive (with a warning).
\<close>

definition np_cov :: "nat \<Rightarrow> npfloat list list \<Rightarrow> npfloat list list" where
  "np_cov n rows =
     (let fact = (if length rows \<le> 1 then 0 else real (length rows) - 1);
          X = map (\<lambda>j. map (\<lambda>a. fsub a (np_mean (column j rows))) (column j rows)) [0..<n]
      in map (\<lambda>xi. map (\<lambda>xj. fmul (np_sum (map2 fmul xi xj)) (fdiv (Fin 1) (Fin fact))) X) X)"

definition fetch_data :: "bool \<Rightarrow> npfloat list list \<Rightarrow> optimizer \<Rightarrow> optimizer" where
  "fetch_data pad data self =
     (let n = length (remdups (tickers self));
          returns = dropna (pct_change pad n data)
      in self\<lparr>returns_data := Some returns,
              cov_matrix := Some (np_cov n returns),
              avg_returns := Some (map (\<lambda>j. np_mean (column j returns)) [0..<n])\<rparr>)"

text \<open>The mean and the sample covariance of real columns, as the specification means them.\<close>

definition spec_mean :: "real list \<Rightarrow> real" where
  "spec_mean xs = sum_list xs / real (length xs)"

definition spec_cov :: "real list \<Rightarrow> real list \<Rightarrow> real" where
  "spec_cov xs ys =
     (\<Sum>t<length xs. (xs ! t - spec_mean xs) * (ys ! t - spec_mean ys)) / (real (length xs) - 1)"

section \<open>The methods as state transformers\<close>

text \<open>
  The state of a session is the optimizer object and the global random source. Here every
  method is a function from the state before the call to what the call returns (or raises)
  and the state after it, statement by statement: reading \<open>self.f\<close> leaves the state,
  \<open>self.f = v\<close> replaces the field, \<open>np.random.random\<close> advances the random source, and
  a call of another method passes the state through that method.
\<close>

type_synonym 'g session = "optimizer \<times> 'g"

definition read_field :: "(optimizer \<Rightarrow> 'a) \<Rightarrow> 'g session \<Rightarrow> 'a \<times> 'g session" where
  "read_field f s = (f (fst s), s)"

definition write_field :: "(optimizer \<Rightarrow> optimizer) \<Rightarrow> 'g session \<Rightarrow> 'g session" where
  "write_field upd s = (upd (fst s), snd s)"

definition draw_global :: "('g \<Rightarrow> real \<times> 'g) \<Rightarrow> nat \<Rightarrow> 'g session \<Rightarrow> real list \<times> 'g session" where
  "draw_global nxt n s = (let (us, g') = np_random_random nxt n (snd s) in (us, (fst s, g')))"

text \<open>\<open>fetch_data\<close>: three assignments to fields of \<open>self\<close>.\<close>

definition fetch_data_method :: "bool \<Rightarrow> npfloat list list \<Rightarrow> 'g session \<Rightarrow> unit \<times> 'g session" where
  "fetch_data_method pad data s =
     (let (ts, s1) = read_field tickers s;
          n = length (remdups ts);
          returns = dropna (pct_change pad n data);
          s2 = write_field (\<lambda>self. self\<lparr>returns_data := Some returns\<rparr>) s1;
          s3 = write_field (\<lambda>self. self\<lparr>cov_matrix := Some (np_cov n returns)\<rparr>) s2;
          s4 = write_field
                 (\<lambda>self. self\<lparr>avg_returns := Some (map (\<lambda>j. np_mean (column j returns)) [0..<n])\<rparr>) s3
      in ((), s4))"

definition generate_portfolio_method ::
  "('g \<Rightarrow> real \<times> 'g) \<Rightarrow> 'g session \<Rightarrow> (string \<times> npfloat) list \<times> 'g session" where
  "generate_portfolio_method nxt s =
     (let (ts, s1) = read_field tickers s;
          (us, s2) = draw_global nxt (length ts) s1;
          weights = map Fin us;
          total = np_sum weights;
          weights = map (\<lambda>w. fdiv w total) weights;
          (ts', s3) = read_field tickers s2
      in (py_dict (zip ts' weights), s3))"

text \<open>The right-hand sides of the scorer's first two statements, for the value read from the field.\<close>

definition return_of :: "npfloat list option \<Rightarrow> npfloat list \<Rightarrow> py_error + npfloat" where
  "return_of avg weights =
     (case avg of
        None \<Rightarrow> Inl TypeError
      | Some m \<Rightarrow>
          (case series_mul m weights of
             Inl e \<Rightarrow> Inl e
           | Inr p \<Rightarrow> Inr (fmul (series_sum p) (Fin 252))))"

definition volatility_of :: "npfloat list list option \<Rightarrow> npfloat list \<Rightarrow> py_error + npfloat" where
  "volatility_of cov weights =
     (case cov of
        None \<Rightarrow> Inl TypeError
      | Some C \<Rightarrow>
          (case np_dot_mv (map (map (\<lambda>c. fmul c (Fin 252))) C) weights of
             Inl e \<Rightarrow> Inl e
           | Inr v \<Rightarrow>
               (case np_dot weights v of
                  Inl e \<Rightarrow> Inl e
                | Inr q \<Rightarrow> Inr (fsqrt q))))"

definition calculate_portfolio_metrics_method ::
  "npfloat list \<Rightarrow> 'g session \<Rightarrow> (py_error + (npfloat \<times> npfloat \<times> npfloat)) \<times> 'g session" where
  "calculate_portfolio_metrics_method weights s =
     (let (avg, s1) = read_field avg_returns s
      in case return_of avg weights of
           Inl e \<Rightarrow> (Inl e, s1)
         | Inr ret \<Rightarrow>
             (let (cov, s2) = read_field cov_matrix s1
              in case volatility_of cov weights of
                   Inl e \<Rightarrow> (Inl e, s2)
                 | Inr vol \<Rightarrow> (Inr (ret, vol, fdiv ret vol), s2)))"

fun monte_carlo_loop_method ::
  "('g \<Rightarrow> real \<times> 'g) \<Rightarrow> nat \<Rightarrow> sim_row list \<Rightarrow> 'g session \<Rightarrow> (py_error + sim_row list) \<times> 'g session"
where
  "monte_carlo_loop_method nxt 0 results s = (Inr results, s)"
| "monte_carlo_loop_method nxt (Suc k) results s =
     (let (d, s1) = generate_portfolio_method nxt s;
          weights = map snd d;
          (m, s2) = calculate_portfolio_metrics_method weights s1
      in case m of
           Inl e \<Rightarrow> (Inl e, s2)
         | Inr (ret, vol, sharpe) \<Rightarrow>
             monte_carlo_loop_method nxt k
               (results @ [\<lparr>row_return = ret, row_volatility = vol,
                             row_sharpe_ratio = sharpe, row_weights = weights\<rparr>]) s2)"

definition run_monte_carlo_method ::
  "('g \<Rightarrow> real \<times> 'g) \<Rightarrow> int \<Rightarrow> 'g session \<Rightarrow> (py_error + sim_row list) \<times> 'g session" where
  "run_monte_carlo_method nxt num_simulations s =
     monte_carlo_loop_method nxt (nat num_simulations) [] s"

text \<open>
  \<open>optimize_portfolio\<close>. The closure \<open>neg_sharpe_ratio\<close> calls the scorer on the object as
  it is when the solver is called; the solver itself is a function of its arguments
  and has no access to the session.
\<close>

definition optimize_portfolio_method ::
  "(nlp \<Rightarrow> py_error + optimize_result) \<Rightarrow> real \<Rightarrow> 'g session
     \<Rightarrow> (py_error + (string \<times> py_value) list) \<times> 'g session" where
  "optimize_portfolio_method minimize risk_free_rate s =
     (let (ts, s1) = read_field tickers s
      in if length ts = 0 then (Inl ZeroDivisionError, s1)
         else
           (case minimize
                   \<lparr>nlp_fun =
                      (\<lambda>weights.
                         case fst (calculate_portfolio_metrics_method weights s1) of
                           Inl e \<Rightarrow> Inl e
                         | Inr (ret, vol, sharpe) \<Rightarrow> Inr (fneg sharpe)),
                    nlp_x0 = replicate (length ts) (Fin (1 / real (length ts))),
                    nlp_method = ''SLSQP'',
                    nlp_bounds = replicate (length ts) (Fin 0, Fin 1),
                    nlp_constraints =
                      \<lparr>ctype = ''eq'', cfun = (\<lambda>x. fsub (np_sum x) (Fin 1))\<rparr>\<rparr> of
              Inl e \<Rightarrow> (Inl e, s1)
            | Inr result \<Rightarrow>
                (let (m, s2) = calculate_portfolio_metrics_method (res_x result) s1
                 in case m of
                      Inl e \<Rightarrow> (Inl e, s2)
                    | Inr (opt_return, opt_vol, opt_sharpe) \<Rightarrow>
                        (let (ts', s3) = read_field tickers s2
                         in (Inr [(''weights'', Dict (py_dict (zip ts' (res_x result)))),
                                  (''return'', Float opt_return),
                                  (''volatility'', Float opt_vol),
                                  (''sharpe_ratio'', Float opt_sharpe)], s3)))))"

section \<open>Example inputs\<close>

text \<open>The two-asset statistics of the specification's end-to-end scenario.\<close>

definition stats2 :: optimizer where
  "stats2 =
     \<lparr>tickers = [''SPY'', ''AGG''], portfolio_size = 10000000,
      returns_data = None,
      cov_matrix = Some [[Fin 0.0004, Fin 0.00005], [Fin 0.00005, Fin 0.0002]],
      avg_returns = Some [Fin 0.001, Fin 0.0005]\<rparr>"

text \<open>One asset whose returns never vary.\<close>

definition flat1 :: optimizer where
  "flat1 =
     \<lparr>tickers = [''AGG''], portfolio_size = 10000000,
      returns_data = None,
      cov_matrix = Some [[Fin 0]],
      avg_returns = Some [Fin 0.001]\<rparr>"

text \<open>
  Two random sources over a counter, one whose draws are \<open>1/2, 1/3, 1/4, \<dots>\<close> and one
  whose draws are all \<open>0.0\<close>; and two solvers that stop at the same iterate, one reporting
  success and one not.
\<close>

definition harmonic_draws :: "nat \<Rightarrow> real \<times> nat" where
  "harmonic_draws g = (1 / (real g + 2), Suc g)"

definition zero_draws :: "nat \<Rightarrow> real \<times> nat" where
  "zero_draws g = (0, Suc g)"

text \<open>Price tables of one ticker with one, two and three closing prices.\<close>

definition prices1 :: "npfloat list list" where
  "prices1 = [[Fin 100]]"

definition prices2 :: "npfloat list list" where
  "prices2 = [[Fin 100], [Fin 110]]"

definition prices3 :: "npfloat list list" where
  "prices3 = [[Fin 100], [Fin 110], [Fin 99]]"

definition stalled_solver :: "nlp \<Rightarrow> py_error + optimize_result" where
  "stalled_solver p = Inr \<lparr>res_x = [Fin 0.7, Fin 0.7], res_success = False\<rparr>"

definition converged_solver :: "nlp \<Rightarrow> py_error + optimize_result" where
  "converged_solver p = Inr \<lparr>res_x = [Fin 0.7, Fin 0.7], res_success = True\<rparr>"

section \<open>Arithmetic on finite values\<close>

lemma np_sum_Fin: "np_sum (map Fin xs) = Fin (sum_list xs)"
  by (induction xs) (simp_all add: np_sum_def)

lemma series_sum_Fin: "series_sum (map Fin xs) = Fin (sum_list xs)"
proof -
  have "filter (\<lambda>x. \<not> isnan x) (map Fin xs) = map Fin xs"
    by (induction xs) simp_all
  then show ?thesis
    by (simp only: series_sum_def np_sum_Fin)
qed

lemma map2_fmul_Fin: "map2 fmul (map Fin a) (map Fin b) = map Fin (map2 (*) a b)"
  by (induction a arbitrary: b) (auto simp: zip_Cons1 split: list.splits)

lemma sum_list_map2_nth:
  "length a = length b \<Longrightarrow> sum_list (map2 f a b) = (\<Sum>i<length b. f (a ! i) (b ! i))"
  by (simp add: sum_list_sum_nth lessThan_atLeast0)


lemma dot_Fin:
  assumes "length a = length b"
  shows "np_sum (map2 fmul (map Fin a) (map Fin b)) = Fin (\<Sum>i<length b. a ! i * b ! i)"
proof -
  have "np_sum (map2 fmul (map Fin a) (map Fin b)) = Fin (sum_list (map2 (*) a b))"
    by (simp only: map2_fmul_Fin np_sum_Fin)
  also have "sum_list (map2 (*) a b) = (\<Sum>i<length b. a ! i * b ! i)"
    using assms by (rule sum_list_map2_nth)
  finally show ?thesis .
qed

lemma portfolio_return_Fin:
  assumes "avg_returns self = Some (map Fin m)" and "length m = length w"
  shows "portfolio_return self (map Fin w) = Inr (Fin (spec_return m w))"
proof -
  have "series_mul (map Fin m) (map Fin w) = Inr (map2 fmul (map Fin m) (map Fin w))"
    using assms(2) by (simp add: series_mul_def)
  moreover have "series_sum (map2 fmul (map Fin m) (map Fin w)) = Fin (\<Sum>i<length w. m ! i * w ! i)"
  proof -
    have "series_sum (map2 fmul (map Fin m) (map Fin w)) = np_sum (map2 fmul (map Fin m) (map Fin w))"
      by (simp only: map2_fmul_Fin series_sum_Fin np_sum_Fin)
    then show ?thesis
      using dot_Fin [OF assms(2)] by simp
  qed
  ultimately have "portfolio_return self (map Fin w) = Inr (fmul (Fin (\<Sum>i<length w. m ! i * w ! i)) (Fin 252))"
    using assms(1) by (simp only: portfolio_return_def option.case sum.case)
  then show ?thesis
    by (simp add: spec_return_def mult.commute)
qed

lemma scaled_row_Fin:
  "map (\<lambda>c. fmul c (Fin k)) (map Fin row) = map Fin (map (\<lambda>c. c * k) row)"
  by simp

lemma scaled_row_dot:
  assumes "length row = length w"
  shows "np_sum (map2 fmul (map (\<lambda>c. fmul c (Fin k)) (map Fin row)) (map Fin w)) =
     Fin (\<Sum>j<length w. row ! j * k * w ! j)"
proof -
  have "length (map (\<lambda>c. c * k) row) = length w"
    using assms by simp
  then have "np_sum (map2 fmul (map Fin (map (\<lambda>c. c * k) row)) (map Fin w)) =
      Fin (\<Sum>j<length w. map (\<lambda>c. c * k) row ! j * w ! j)"
    by (rule dot_Fin)
  moreover have "(\<Sum>j<length w. map (\<lambda>c. c * k) row ! j * w ! j) = (\<Sum>j<length w. row ! j * k * w ! j)"
    using assms by (intro sum.cong) simp_all
  ultimately show ?thesis
    by (simp only: scaled_row_Fin)
qed

lemma np_dot_mv_Fin:
  assumes "\<forall>row\<in>set C. length row = length w"
  shows "np_dot_mv (map (map (\<lambda>c. fmul c (Fin k))) (map (map Fin) C)) (map Fin w) =
    Inr (map Fin (map (\<lambda>row. \<Sum>j<length w. row ! j * k * w ! j) C))"
proof -
  have lens: "list_all (\<lambda>row. length row = length (map Fin w))
      (map (map (\<lambda>c. fmul c (Fin k))) (map (map Fin) C))"
    using assms by (simp add: list_all_iff)
  have "map (\<lambda>row. np_sum (map2 fmul row (map Fin w))) (map (map (\<lambda>c. fmul c (Fin k))) (map (map Fin) C))
      = map (\<lambda>row. np_sum (map2 fmul (map (\<lambda>c. fmul c (Fin k)) (map Fin row)) (map Fin w))) C"
    by (simp add: comp_def)
  also have "\<dots> = map (\<lambda>row. Fin (\<Sum>j<length w. row ! j * k * w ! j)) C"
    using assms by (intro map_cong refl scaled_row_dot) simp
  also have "\<dots> = map Fin (map (\<lambda>row. \<Sum>j<length w. row ! j * k * w ! j) C)"
    by (simp add: comp_def)
  finally show ?thesis
    using lens by (simp only: np_dot_mv_def if_True)
qed

lemma portfolio_volatility_Fin:
  assumes "cov_matrix self = Some (map (map Fin) C)" and "length C = length w"
    and "\<forall>row\<in>set C. length row = length w"
  shows "portfolio_volatility self (map Fin w) = Inr (fsqrt (Fin (252 * spec_quadratic_form C w)))"
proof -
  let ?v = "map (\<lambda>row. \<Sum>j<length w. row ! j * 252 * w ! j) C"
  have mv: "np_dot_mv (map (map (\<lambda>c. fmul c (Fin 252))) (map (map Fin) C)) (map Fin w) = Inr (map Fin ?v)"
    using assms(3) by (rule np_dot_mv_Fin)
  have lv: "length w = length ?v"
    using assms(2) by simp
  have "np_sum (map2 fmul (map Fin w) (map Fin ?v)) = Fin (\<Sum>i<length ?v. w ! i * ?v ! i)"
    using lv by (rule dot_Fin)
  moreover have "(\<Sum>i<length ?v. w ! i * ?v ! i) = 252 * spec_quadratic_form C w"
    using assms(2) unfolding spec_quadratic_form_def
    by (simp add: sum_distrib_left algebra_simps)
  ultimately have "np_sum (map2 fmul (map Fin w) (map Fin ?v)) = Fin (252 * spec_quadratic_form C w)"
    by (simp only:)
  then have "np_dot (map Fin w) (map Fin ?v) = Inr (Fin (252 * spec_quadratic_form C w))"
    using lv by (simp only: np_dot_def length_map refl if_True)
  then show ?thesis
    using assms(1) mv by (simp only: portfolio_volatility_def option.case sum.case)
qed


section \<open>The scorer\<close>

text \<open>
  Claim C1. For finite statistics (mean vector \<open>m\<close>, covariance matrix \<open>C\<close>) and a finite
  weight vector \<open>w\<close> of the same dimension, the scorer returns the triple of
  \<open>252 * dot(m, w)\<close>, the square root of \<open>252 * w\<^sup>T C w\<close> and their quotient, with the
  square root and the quotient of numpy; where the quadratic form is positive these are the
  real \<open>sqrt (252 * w\<^sup>T C w)\<close> and \<open>return / volatility\<close>. For the two-asset scenario of
  the specification the return is \<open>0.189\<close> and the volatility \<open>0.21\<close>.
\<close>

theorem scorer_formula:
  assumes "avg_returns self = Some (map Fin m)"
    and "cov_matrix self = Some (map (map Fin) C)"
    and "length m = length w" and "length C = length w"
    and "\<forall>row\<in>set C. length row = length w"
  shows "calculate_portfolio_metrics self (map Fin w) =
      Inr (Fin (spec_return m w),
           fsqrt (Fin (252 * spec_quadratic_form C w)),
           fdiv (Fin (spec_return m w)) (fsqrt (Fin (252 * spec_quadratic_form C w))))
    \<and> (0 < spec_quadratic_form C w \<longrightarrow>
         calculate_portfolio_metrics self (map Fin w) =
           Inr (Fin (spec_return m w),
                Fin (sqrt (252 * spec_quadratic_form C w)),
                Fin (spec_return m w / sqrt (252 * spec_quadratic_form C w))))"
proof -
  have r: "portfolio_return self (map Fin w) = Inr (Fin (spec_return m w))"
    using assms(1,3) by (rule portfolio_return_Fin)
  have v: "portfolio_volatility self (map Fin w) = Inr (fsqrt (Fin (252 * spec_quadratic_form C w)))"
    using assms(2,4,5) by (rule portfolio_volatility_Fin)
  have general: "calculate_portfolio_metrics self (map Fin w) =
      Inr (Fin (spec_return m w),
           fsqrt (Fin (252 * spec_quadratic_form C w)),
           fdiv (Fin (spec_return m w)) (fsqrt (Fin (252 * spec_quadratic_form C w))))"
    by (simp only: calculate_portfolio_metrics_def r v sum.case)
  show ?thesis
    using general by simp
qed

theorem scorer_formula_witness:
  "calculate_portfolio_metrics stats2 [Fin 0.5, Fin 0.5] = Inr (Fin 0.189, Fin 0.21, Fin 0.9)
   \<and> spec_return [0.001, 0.0005] [0.5, 0.5] = 252 * (0.5 * 0.001 + 0.5 * 0.0005)
   \<and> spec_return [0.001, 0.0005] [0.5, 0.5] = 0.189
   \<and> sqrt (252 * spec_quadratic_form [[0.0004, 0.00005], [0.00005, 0.0002]] [0.5, 0.5]) = 0.21"
proof -
  let ?m = "[0.001, 0.0005] :: real list"
  let ?C = "[[0.0004, 0.00005], [0.00005, 0.0002]] :: real list list"
  let ?w = "[0.5, 0.5] :: real list"
  have ret: "spec_return ?m ?w = 0.189"
    by (simp add: spec_return_def lessThan_Suc eval_nat_numeral)
  have qf: "252 * spec_quadratic_form ?C ?w = 0.0441"
    by (simp add: spec_quadratic_form_def lessThan_Suc eval_nat_numeral)
  have rt: "sqrt 0.0441 = 0.21"
    by (rule real_sqrt_unique) (simp_all add: power2_eq_square)
  have pos: "0 < spec_quadratic_form ?C ?w"
    using qf by simp
  have "calculate_portfolio_metrics stats2 (map Fin ?w) =
      Inr (Fin (spec_return ?m ?w), Fin (sqrt (252 * spec_quadratic_form ?C ?w)),
           Fin (spec_return ?m ?w / sqrt (252 * spec_quadratic_form ?C ?w)))"
    using scorer_formula [of stats2 ?m ?C ?w] pos by (simp add: stats2_def)
  then have "calculate_portfolio_metrics stats2 (map Fin ?w) = Inr (Fin 0.189, Fin 0.21, Fin (0.189 / 0.21))"
    by (simp only: ret qf rt)
  then have c: "calculate_portfolio_metrics stats2 [Fin 0.5, Fin 0.5] = Inr (Fin 0.189, Fin 0.21, Fin 0.9)"
    by simp
  have s: "sqrt (252 * spec_quadratic_form ?C ?w) = 0.21"
    by (simp only: qf rt)
  have e: "spec_return ?m ?w = 252 * (0.5 * 0.001 + 0.5 * 0.0005)"
    by (simp only: ret) simp
  show ?thesis
    using c s e ret by (simp only: simp_thms)
qed

section \<open>Zero volatility\<close>

lemma series_mul_total:
  "length w = length m \<Longrightarrow> \<exists>p. series_mul m w = Inr p"
  by (simp add: series_mul_def)

lemma scorer_total:
  assumes "stats_ready self (length w)"
  shows "\<exists>r v sh. calculate_portfolio_metrics self w = Inr (r, v, sh)"
proof -
  from assms obtain m C where m: "avg_returns self = Some m" and C: "cov_matrix self = Some C"
    and lm: "length m = length w" and lC: "length C = length w"
    and rows: "list_all (\<lambda>row. length row = length w) C"
    by (auto simp: stats_ready_def split: option.splits)
  have r: "\<exists>r. portfolio_return self w = Inr r"
    using m lm by (simp add: portfolio_return_def series_mul_def)
  have "list_all (\<lambda>row. length row = length w) (map (map (\<lambda>c. fmul c (Fin 252))) C)"
    using rows by (simp add: list_all_iff)
  then have "\<exists>v. portfolio_volatility self w = Inr v"
    using C lC by (simp add: portfolio_volatility_def np_dot_mv_def np_dot_def)
  with r show ?thesis
    by (auto simp: calculate_portfolio_metrics_def)
qed

text \<open>
  Claim C5, as the code has it. The scorer raises nothing at a volatility of exactly zero:
  it returns the triple, and its Sharpe ratio is the quotient numpy gives for a zero
  divisor, \<open>inf\<close> for a positive return, \<open>-inf\<close> for a negative one and \<open>nan\<close> for a
  return of zero (an infinite or \<open>nan\<close> return gives itself).
\<close>

theorem zero_volatility_sharpe:
  assumes "portfolio_return self w = Inr r"
    and "portfolio_volatility self w = Inr (Fin 0)"
  shows "\<exists>sharpe. calculate_portfolio_metrics self w = Inr (r, Fin 0, sharpe)
      \<and> \<not> is_finite sharpe
      \<and> sharpe =
          (case r of Fin a \<Rightarrow> (if 0 < a then PInf else if a < 0 then NInf else NaN)
                   | PInf \<Rightarrow> PInf | NInf \<Rightarrow> NInf | NaN \<Rightarrow> NaN)"
  using assms by (cases r) (simp_all add: calculate_portfolio_metrics_def inf_sgn_def)

lemma flat1_return: "portfolio_return flat1 [Fin a] = Inr (Fin (a * 0.252))"
  by (simp add: portfolio_return_def flat1_def series_mul_def series_sum_def np_sum_def)

lemma flat1_volatility: "portfolio_volatility flat1 [Fin a] = Inr (Fin 0)"
  by (simp add: portfolio_volatility_def flat1_def np_dot_mv_def np_dot_def np_sum_def)

theorem zero_volatility_sharpe_witness:
  "portfolio_return flat1 [Fin (- 1)] = Inr (Fin (- 0.252))
   \<and> portfolio_volatility flat1 [Fin (- 1)] = Inr (Fin 0)
   \<and> calculate_portfolio_metrics flat1 [Fin (- 1)] = Inr (Fin (- 0.252), Fin 0, NInf)"
  using zero_volatility_sharpe [of flat1 "[Fin (- 1)]" "Fin (- 0.252)"]
    flat1_return [of "- 1"] flat1_volatility [of "- 1"]
  by simp

text \<open>
  For one asset of variance zero and mean return \<open>0.001\<close>, the scorer returns a Sharpe
  ratio of \<open>inf\<close>; no error is raised.
\<close>

theorem zero_volatility_counterexample:
  "calculate_portfolio_metrics flat1 [Fin 1] = Inr (Fin 0.252, Fin 0, PInf)"
  using flat1_return [of 1] flat1_volatility [of 1]
  by (simp add: calculate_portfolio_metrics_def inf_sgn_def)

section \<open>The Monte Carlo run with no trials\<close>

text \<open>
  Claim C7, as the code has it. For a number of simulations that is zero or negative the
  run raises nothing: it returns the empty table and draws nothing from the random source.
\<close>

theorem monte_carlo_nonpositive:
  "n \<le> 0 \<Longrightarrow> run_monte_carlo nxt self n g = (Inr [], g)"
  by (simp add: run_monte_carlo_def)

theorem monte_carlo_nonpositive_witness:
  "(- 3 :: int) \<le> 0 \<and> run_monte_carlo zero_draws flat1 (- 3) (5::nat) = (Inr [], 5)"
  using monte_carlo_nonpositive [of "- 3" zero_draws flat1 5] by simp

text \<open>With \<open>num_simulations = 0\<close> the run returns an empty table.\<close>

theorem monte_carlo_zero_counterexample:
  "run_monte_carlo harmonic_draws stats2 0 (0::nat) = (Inr [], 0)"
  by (simp add: run_monte_carlo_def)

section \<open>The risk-free rate\<close>

text \<open>
  Claim C10. For the same solver and the same object, the optimizer returns the same
  result (or raises the same error) for any two values of \<open>risk_free_rate\<close>.
\<close>

theorem risk_free_rate_unused:
  "optimize_portfolio minimize self r1 = optimize_portfolio minimize self r2"
  by (simp add: optimize_portfolio_def)

theorem risk_free_rate_unused_witness:
  "optimize_portfolio converged_solver stats2 0.02 = optimize_portfolio converged_solver stats2 0.05"
  by (rule risk_free_rate_unused)

section \<open>The problem given to the solver\<close>

lemma slsqp_problem_nonempty:
  assumes "tickers self \<noteq> []"
  shows "slsqp_problem self =
    Inr \<lparr>nlp_fun = neg_sharpe_ratio self,
         nlp_x0 = replicate (length (tickers self)) (Fin (1 / real (length (tickers self)))),
         nlp_method = ''SLSQP'',
         nlp_bounds = replicate (length (tickers self)) (Fin 0, Fin 1),
         nlp_constraints = \<lparr>ctype = ''eq'', cfun = (\<lambda>x. fsub (np_sum x) (Fin 1))\<rparr>\<rparr>"
  using assms by (simp add: slsqp_problem_def initial_weights_def)

lemma slsqp_problem_empty:
  "tickers self = [] \<Longrightarrow> slsqp_problem self = Inl ZeroDivisionError"
  by (simp add: slsqp_problem_def initial_weights_def)

lemma eq_constraint_Fin: "fsub (np_sum (map Fin x)) (Fin 1) = Fin (sum_list x - 1)"
  by (simp add: np_sum_Fin fsub_def)

text \<open>
  Claim C2. For a non-empty list of \<open>N\<close> tickers the optimizer calls the solver with this
  problem: the objective is the negated Sharpe ratio of the scorer; the method is SLSQP;
  there is one constraint, of type \<open>eq\<close>, whose function is \<open>sum(x) - 1\<close>, zero exactly
  when the weights sum to one; there are \<open>N\<close> bounds, each \<open>(0, 1)\<close>; the initial guess
  has \<open>N\<close> entries, each \<open>1/N\<close>.
\<close>

theorem optimizer_problem:
  assumes "tickers self \<noteq> []"
  shows "\<exists>p. slsqp_problem self = Inr p
    \<and> (\<forall>w. nlp_fun p w =
          (case calculate_portfolio_metrics self w of
             Inl e \<Rightarrow> Inl e
           | Inr (ret, vol, sharpe) \<Rightarrow> Inr (fneg sharpe)))
    \<and> nlp_method p = ''SLSQP''
    \<and> ctype (nlp_constraints p) = ''eq''
    \<and> (\<forall>x. cfun (nlp_constraints p) (map Fin x) = Fin (sum_list x - 1))
    \<and> (\<forall>x. cfun (nlp_constraints p) (map Fin x) = Fin 0 \<longleftrightarrow> sum_list x = 1)
    \<and> length (nlp_bounds p) = length (tickers self)
    \<and> (\<forall>i<length (tickers self). nlp_bounds p ! i = (Fin 0, Fin 1))
    \<and> length (nlp_x0 p) = length (tickers self)
    \<and> (\<forall>i<length (tickers self). nlp_x0 p ! i = Fin (1 / real (length (tickers self))))
    \<and> optimize_portfolio minimize self risk_free_rate =
        (case minimize p of
           Inl e \<Rightarrow> Inl e
         | Inr result \<Rightarrow>
             (case calculate_portfolio_metrics self (res_x result) of
                Inl e \<Rightarrow> Inl e
              | Inr (opt_return, opt_vol, opt_sharpe) \<Rightarrow>
                  Inr [(''weights'', Dict (py_dict (zip (tickers self) (res_x result)))),
                       (''return'', Float opt_return),
                       (''volatility'', Float opt_vol),
                       (''sharpe_ratio'', Float opt_sharpe)]))"
proof -
  let ?p = "\<lparr>nlp_fun = neg_sharpe_ratio self,
         nlp_x0 = replicate (length (tickers self)) (Fin (1 / real (length (tickers self)))),
         nlp_method = ''SLSQP'',
         nlp_bounds = replicate (length (tickers self)) (Fin 0, Fin 1),
         nlp_constraints = \<lparr>ctype = ''eq'', cfun = (\<lambda>x. fsub (np_sum x) (Fin 1))\<rparr>\<rparr>"
  have p: "slsqp_problem self = Inr ?p"
    using assms by (rule slsqp_problem_nonempty)
  have obj: "\<forall>w. nlp_fun ?p w =
          (case calculate_portfolio_metrics self w of
             Inl e \<Rightarrow> Inl e
           | Inr (ret, vol, sharpe) \<Rightarrow> Inr (fneg sharpe))"
    by (simp add: neg_sharpe_ratio_def)
  have con: "\<forall>x. cfun (nlp_constraints ?p) (map Fin x) = Fin (sum_list x - 1)"
    by (simp add: eq_constraint_Fin)
  have con0: "\<forall>x. cfun (nlp_constraints ?p) (map Fin x) = Fin 0 \<longleftrightarrow> sum_list x = 1"
    by (simp add: eq_constraint_Fin)
  have call: "optimize_portfolio minimize self risk_free_rate =
        (case minimize ?p of
           Inl e \<Rightarrow> Inl e
         | Inr result \<Rightarrow>
             (case calculate_portfolio_metrics self (res_x result) of
                Inl e \<Rightarrow> Inl e
              | Inr (opt_return, opt_vol, opt_sharpe) \<Rightarrow>
                  Inr [(''weights'', Dict (py_dict (zip (tickers self) (res_x result)))),
                       (''return'', Float opt_return),
                       (''volatility'', Float opt_vol),
                       (''sharpe_ratio'', Float opt_sharpe)]))"
    by (simp only: optimize_portfolio_def p sum.case)
  show ?thesis
    apply (rule exI [of _ ?p])
    using p obj con con0 call by simp
qed

lemma sqrt_0441: "sqrt (441 / 10000) = 21 / 100"
  by (rule real_sqrt_unique) (simp_all add: power2_eq_square)

lemma stats2_equal_weights:
  "calculate_portfolio_metrics stats2 [Fin 0.5, Fin 0.5] = Inr (Fin 0.189, Fin 0.21, Fin 0.9)"
proof -
  have r: "portfolio_return stats2 [Fin 0.5, Fin 0.5] = Inr (Fin 0.189)"
    by (simp add: portfolio_return_def stats2_def series_mul_def series_sum_def np_sum_def)
  have "portfolio_volatility stats2 [Fin 0.5, Fin 0.5] = Inr (fsqrt (Fin 0.0441))"
    by (simp add: portfolio_volatility_def stats2_def np_dot_mv_def np_dot_def np_sum_def)
  then have v: "portfolio_volatility stats2 [Fin 0.5, Fin 0.5] = Inr (Fin 0.21)"
    by (simp add: sqrt_0441)
  show ?thesis
    using r v by (simp add: calculate_portfolio_metrics_def)
qed

theorem optimizer_problem_witness:
  "tickers stats2 \<noteq> []
   \<and> (\<exists>p. slsqp_problem stats2 = Inr p
        \<and> nlp_x0 p = [Fin 0.5, Fin 0.5]
        \<and> nlp_bounds p = [(Fin 0, Fin 1), (Fin 0, Fin 1)]
        \<and> ctype (nlp_constraints p) = ''eq''
        \<and> cfun (nlp_constraints p) [Fin 0.25, Fin 0.75] = Fin 0
        \<and> nlp_fun p [Fin 0.5, Fin 0.5] = Inr (Fin (- 0.9)))"
proof -
  have ne: "tickers stats2 \<noteq> []"
    by (simp add: stats2_def)
  from optimizer_problem [OF ne, of converged_solver "0.02"]
  obtain p where p: "slsqp_problem stats2 = Inr p"
    and obj: "\<forall>w. nlp_fun p w =
          (case calculate_portfolio_metrics stats2 w of
             Inl e \<Rightarrow> Inl e
           | Inr (ret, vol, sharpe) \<Rightarrow> Inr (fneg sharpe))"
    and ct: "ctype (nlp_constraints p) = ''eq''"
    and con: "\<forall>x. cfun (nlp_constraints p) (map Fin x) = Fin (sum_list x - 1)"
    and lb: "length (nlp_bounds p) = length (tickers stats2)"
    and b: "\<forall>i<length (tickers stats2). nlp_bounds p ! i = (Fin 0, Fin 1)"
    and lx: "length (nlp_x0 p) = length (tickers stats2)"
    and x: "\<forall>i<length (tickers stats2). nlp_x0 p ! i = Fin (1 / real (length (tickers stats2)))"
    by blast
  have x0: "nlp_x0 p = [Fin 0.5, Fin 0.5]"
    using lx x by (intro nth_equalityI) (auto simp: stats2_def less_Suc_eq)
  have bs: "nlp_bounds p = [(Fin 0, Fin 1), (Fin 0, Fin 1)]"
    using lb b by (intro nth_equalityI) (auto simp: stats2_def less_Suc_eq)
  have c: "cfun (nlp_constraints p) [Fin 0.25, Fin 0.75] = Fin 0"
    using con [rule_format, of "[0.25, 0.75]"] by simp
  have o: "nlp_fun p [Fin 0.5, Fin 0.5] = Inr (Fin (- 0.9))"
    using obj [rule_format, of "[Fin 0.5, Fin 0.5]"] stats2_equal_weights by simp
  show ?thesis
    using ne p x0 bs ct c o by blast
qed

section \<open>The result of the optimizer\<close>

lemma sqrt_086436: "sqrt (21609 / 250000) = 147 / 500"
  by (rule real_sqrt_unique) (simp_all add: power2_eq_square)

lemma stats2_infeasible:
  "calculate_portfolio_metrics stats2 [Fin 0.7, Fin 0.7] = Inr (Fin 0.2646, Fin 0.294, Fin 0.9)"
proof -
  have r: "portfolio_return stats2 [Fin 0.7, Fin 0.7] = Inr (Fin 0.2646)"
    by (simp add: portfolio_return_def stats2_def series_mul_def series_sum_def np_sum_def)
  have "portfolio_volatility stats2 [Fin 0.7, Fin 0.7] = Inr (fsqrt (Fin 0.086436))"
    by (simp add: portfolio_volatility_def stats2_def np_dot_mv_def np_dot_def np_sum_def)
  then have v: "portfolio_volatility stats2 [Fin 0.7, Fin 0.7] = Inr (Fin 0.294)"
    by (simp add: sqrt_086436)
  show ?thesis
    using r v by (simp add: calculate_portfolio_metrics_def)
qed

lemma py_dict_stats2:
  "py_dict (zip (tickers stats2) [a, b]) = [(''SPY'', a), (''AGG'', b)]"
  by (simp add: py_dict_def stats2_def)

text \<open>
  Claim C8, as the code has it. Whenever the solver returns a result, converged or not,
  whose iterate \<open>x\<close> has the dimension of the statistics, the optimizer raises nothing and
  returns a dict of exactly four entries: the weights (the tickers zipped with \<open>x\<close>, as the
  solver left it) and the return, volatility and Sharpe ratio the scorer gives for \<open>x\<close>.
  The dict has no convergence flag: the solver's \<open>success\<close> does not occur in it.
\<close>

theorem optimizer_returns_iterate:
  assumes "tickers self \<noteq> []"
    and "slsqp_problem self = Inr p"
    and "minimize p = Inr result"
    and "stats_ready self (length (res_x result))"
  shows "\<exists>ret vol sharpe.
      calculate_portfolio_metrics self (res_x result) = Inr (ret, vol, sharpe)
    \<and> optimize_portfolio minimize self risk_free_rate =
        Inr [(''weights'', Dict (py_dict (zip (tickers self) (res_x result)))),
             (''return'', Float ret),
             (''volatility'', Float vol),
             (''sharpe_ratio'', Float sharpe)]"
proof -
  from scorer_total [OF assms(4)] obtain ret vol sharpe
    where m: "calculate_portfolio_metrics self (res_x result) = Inr (ret, vol, sharpe)"
    by blast
  have "optimize_portfolio minimize self risk_free_rate =
        Inr [(''weights'', Dict (py_dict (zip (tickers self) (res_x result)))),
             (''return'', Float ret),
             (''volatility'', Float vol),
             (''sharpe_ratio'', Float sharpe)]"
    using assms(2,3) m by (simp add: optimize_portfolio_def)
  with m show ?thesis
    by blast
qed

theorem optimizer_returns_iterate_witness:
  "tickers stats2 \<noteq> []
   \<and> stats_ready stats2 (length (res_x \<lparr>res_x = [Fin 0.5, Fin 0.5], res_success = False\<rparr>))
   \<and> (\<exists>ret vol sharpe.
        optimize_portfolio (\<lambda>p. Inr \<lparr>res_x = [Fin 0.5, Fin 0.5], res_success = False\<rparr>) stats2 0.02 =
          Inr [(''weights'', Dict [(''SPY'', Fin 0.5), (''AGG'', Fin 0.5)]),
               (''return'', Float ret),
               (''volatility'', Float vol),
               (''sharpe_ratio'', Float sharpe)])"
proof -
  let ?res = "\<lparr>res_x = [Fin 0.5, Fin 0.5], res_success = False\<rparr>"
  have ne: "tickers stats2 \<noteq> []"
    by (simp add: stats2_def)
  obtain p where p: "slsqp_problem stats2 = Inr p"
    using slsqp_problem_nonempty [OF ne] by blast
  have ready: "stats_ready stats2 (length (res_x ?res))"
    by (simp add: stats_ready_def stats2_def)
  have run: "(\<lambda>p. Inr ?res) p = Inr ?res"
    by simp
  from optimizer_returns_iterate [OF ne p run ready, of "0.02"]
  obtain ret vol sharpe where
    "optimize_portfolio (\<lambda>p. Inr ?res) stats2 0.02 =
        Inr [(''weights'', Dict (py_dict (zip (tickers stats2) (res_x ?res)))),
             (''return'', Float ret),
             (''volatility'', Float vol),
             (''sharpe_ratio'', Float sharpe)]"
    by blast
  then have "optimize_portfolio (\<lambda>p. Inr ?res) stats2 0.02 =
        Inr [(''weights'', Dict [(''SPY'', Fin 0.5), (''AGG'', Fin 0.5)]),
             (''return'', Float ret),
             (''volatility'', Float vol),
             (''sharpe_ratio'', Float sharpe)]"
    by (simp add: py_dict_stats2)
  then show ?thesis
    using ne ready by blast
qed

text \<open>
  A solver that stops without converging at \<open>[0.7, 0.7]\<close>: the optimizer's result has the
  four entries only, it equals the result for a solver that reports success at the same
  iterate, and its weights sum to \<open>1.4\<close>.
\<close>

theorem no_convergence_flag_counterexample:
  "optimize_portfolio stalled_solver stats2 0.02 =
     Inr [(''weights'', Dict [(''SPY'', Fin 0.7), (''AGG'', Fin 0.7)]),
          (''return'', Float (Fin 0.2646)),
          (''volatility'', Float (Fin 0.294)),
          (''sharpe_ratio'', Float (Fin 0.9))]
   \<and> optimize_portfolio converged_solver stats2 0.02 =
       optimize_portfolio stalled_solver stats2 0.02"
proof -
  have ne: "tickers stats2 \<noteq> []"
    by (simp add: stats2_def)
  obtain p where p: "slsqp_problem stats2 = Inr p"
    using slsqp_problem_nonempty [OF ne] by blast
  show ?thesis
    using p stats2_infeasible
    by (simp add: optimize_portfolio_def stalled_solver_def converged_solver_def py_dict_stats2)
qed

section \<open>The sampler\<close>

lemma length_np_random_random: "length (fst (np_random_random nxt n g)) = n"
  by (induction n arbitrary: g) (simp_all add: split_beta)

lemma state_np_random_random:
  "snd (np_random_random nxt n g) = ((\<lambda>h. snd (nxt h)) ^^ n) g"
  by (induction n arbitrary: g) (simp_all add: split_beta funpow_Suc_right del: funpow.simps)

lemma draws_nonneg:
  assumes "\<And>h. 0 \<le> fst (nxt h)"
  shows "\<forall>u\<in>set (fst (np_random_random nxt n g)). 0 \<le> u"
  using assms by (induction n arbitrary: g) (simp_all add: split_beta)

lemma update_fresh:
  "k \<notin> fst ` set al \<Longrightarrow> AList.update k v al = al @ [(k, v)]"
  by (induction al) auto

lemma foldl_update_distinct:
  "distinct (map fst (acc @ kvs)) \<Longrightarrow>
     foldl (\<lambda>d (k, v). AList.update k v d) acc kvs = acc @ kvs"
proof (induction kvs arbitrary: acc)
  case Nil
  then show ?case by simp
next
  case (Cons kv kvs)
  obtain k v where kv: "kv = (k, v)"
    by (cases kv)
  have fresh: "k \<notin> fst ` set acc"
    using Cons.prems kv by auto
  have "distinct (map fst ((acc @ [(k, v)]) @ kvs))"
    using Cons.prems kv by simp
  then have "foldl (\<lambda>d (k, v). AList.update k v d) (acc @ [(k, v)]) kvs = (acc @ [(k, v)]) @ kvs"
    by (rule Cons.IH)
  then show ?case
    using fresh kv by (simp add: update_fresh)
qed

lemma py_dict_distinct: "distinct (map fst kvs) \<Longrightarrow> py_dict kvs = kvs"
  using foldl_update_distinct [of "[]" kvs] by (simp add: py_dict_def)

lemma py_dict_zip:
  assumes "distinct ts" and "length ws = length ts"
  shows "py_dict (zip ts ws) = zip ts ws"
  using assms by (intro py_dict_distinct) simp

lemma generate_portfolio_unfold:
  assumes "distinct (tickers self)"
  shows "generate_portfolio nxt self g =
     (zip (tickers self)
        (map (\<lambda>w. fdiv w (np_sum (map Fin (fst (np_random_random nxt (length (tickers self)) g)))))
           (map Fin (fst (np_random_random nxt (length (tickers self)) g)))),
      snd (np_random_random nxt (length (tickers self)) g))"
  using assms
  by (simp add: generate_portfolio_def split_beta Let_def py_dict_zip length_np_random_random)

lemma trial_weights_unfold:
  assumes "distinct (tickers self)"
  shows "trial_weights nxt self g =
     map (\<lambda>w. fdiv w (np_sum (map Fin (fst (np_random_random nxt (length (tickers self)) g)))))
       (map Fin (fst (np_random_random nxt (length (tickers self)) g)))"
  using assms
  by (simp add: trial_weights_def generate_portfolio_unfold length_np_random_random)

lemma length_trial_weights:
  "distinct (tickers self) \<Longrightarrow> length (trial_weights nxt self g) = length (tickers self)"
  by (simp add: trial_weights_unfold length_np_random_random)


lemma normalise_draws:
  assumes "\<forall>u\<in>set us. 0 \<le> u" and "\<exists>u\<in>set us. u \<noteq> 0"
  shows "map (\<lambda>w. fdiv w (np_sum (map Fin us))) (map Fin us) = map Fin (map (\<lambda>u. u / sum_list us) us)
    \<and> (\<forall>w\<in>set (map (\<lambda>u. u / sum_list us) us). 0 \<le> w)
    \<and> sum_list (map (\<lambda>u. u / sum_list us) us) = 1"
proof -
  from assms obtain u where u: "u \<in> set us" "0 < u"
    by force
  have "u \<le> sum_list us"
    using assms(1) u(1) by (intro member_le_sum_list) auto
  with u have pos: "0 < sum_list us"
    by simp
  have a: "map (\<lambda>w. fdiv w (np_sum (map Fin us))) (map Fin us) = map Fin (map (\<lambda>u. u / sum_list us) us)"
    using pos by (simp add: np_sum_Fin)
  have b: "\<forall>w\<in>set (map (\<lambda>u. u / sum_list us) us). 0 \<le> w"
    using assms(1) pos by auto
  have "sum_list (map (\<lambda>u. u * inverse (sum_list us)) us) = sum_list us * inverse (sum_list us)"
    by (simp add: sum_list_mult_const)
  then have c: "sum_list (map (\<lambda>u. u / sum_list us) us) = 1"
    using pos by (simp add: divide_inverse)
  from a b c show ?thesis
    by blast
qed

lemma normalise_zero_draws:
  assumes "\<forall>u\<in>set us. u = 0"
  shows "map (\<lambda>w. fdiv w (np_sum (map Fin us))) (map Fin us) = replicate (length us) NaN"
proof -
  have r: "us = replicate (length us) 0"
    using assms by (simp add: replicate_length_same)
  have "sum_list (replicate n (0::real)) = 0" for n
    by (induction n) simp_all
  then have "np_sum (map Fin (replicate n 0)) = Fin 0" for n
    by (simp only: np_sum_Fin)
  then have "map (\<lambda>w. fdiv w (np_sum (map Fin (replicate n 0)))) (map Fin (replicate n 0)) = replicate n NaN" for n
    by (simp add: inf_sgn_def)
  from this [of "length us"] r show ?thesis
    by simp
qed

text \<open>
  Claim C4, as the code has it. For distinct tickers and a random source whose draws lie in
  \<open>[0, 1)\<close>, the sampler takes exactly \<open>N\<close> draws, one per ticker, and never a second
  round. If the draws are not all zero, weight \<open>i\<close> is draw \<open>i\<close> divided by the sum of the
  draws: the \<open>N\<close> weights are finite and nonnegative and their sum is one within \<open>1e-9\<close>.
  If all \<open>N\<close> draws are zero it divides by zero and returns \<open>N\<close> times \<open>nan\<close>.
\<close>

theorem sampler_normalised:
  assumes "distinct (tickers self)"
    and "\<forall>h. 0 \<le> fst (nxt h) \<and> fst (nxt h) < 1"
  shows "map fst (fst (generate_portfolio nxt self g)) = tickers self
      \<and> length (fst (generate_portfolio nxt self g)) = length (tickers self)
      \<and> snd (generate_portfolio nxt self g) = ((\<lambda>h. snd (nxt h)) ^^ length (tickers self)) g
      \<and> ((\<exists>u\<in>set (fst (np_random_random nxt (length (tickers self)) g)). u \<noteq> 0) \<longrightarrow>
            map snd (fst (generate_portfolio nxt self g)) =
              map (\<lambda>u. Fin (u / sum_list (fst (np_random_random nxt (length (tickers self)) g))))
                (fst (np_random_random nxt (length (tickers self)) g))
          \<and> (\<forall>u\<in>set (fst (np_random_random nxt (length (tickers self)) g)).
                0 \<le> u / sum_list (fst (np_random_random nxt (length (tickers self)) g)))
          \<and> \<bar>sum_list
                (map (\<lambda>u. u / sum_list (fst (np_random_random nxt (length (tickers self)) g)))
                   (fst (np_random_random nxt (length (tickers self)) g))) - 1\<bar> \<le> 1 / 10 ^ 9)
      \<and> ((\<forall>u\<in>set (fst (np_random_random nxt (length (tickers self)) g)). u = 0) \<longrightarrow>
           map snd (fst (generate_portfolio nxt self g)) = replicate (length (tickers self)) NaN)"
proof -
  let ?us = "fst (np_random_random nxt (length (tickers self)) g)"
  have len: "length ?us = length (tickers self)"
    by (rule length_np_random_random)
  have nonneg: "\<forall>u\<in>set ?us. 0 \<le> u"
    using assms(2) by (intro draws_nonneg) simp
  have vals: "map snd (fst (generate_portfolio nxt self g)) =
      map (\<lambda>w. fdiv w (np_sum (map Fin ?us))) (map Fin ?us)"
    using trial_weights_unfold [OF assms(1), of nxt g] by (simp add: trial_weights_def)
  have keys: "map fst (fst (generate_portfolio nxt self g)) = tickers self"
    using len by (simp add: generate_portfolio_unfold [OF assms(1)])
  have count: "length (fst (generate_portfolio nxt self g)) = length (tickers self)"
    using len by (simp add: generate_portfolio_unfold [OF assms(1)])
  have st: "snd (generate_portfolio nxt self g) = ((\<lambda>h. snd (nxt h)) ^^ length (tickers self)) g"
    by (simp add: generate_portfolio_unfold [OF assms(1)] state_np_random_random)
  have normal: "(\<exists>u\<in>set ?us. u \<noteq> 0) \<longrightarrow>
            map snd (fst (generate_portfolio nxt self g)) = map (\<lambda>u. Fin (u / sum_list ?us)) ?us
          \<and> (\<forall>u\<in>set ?us. 0 \<le> u / sum_list ?us)
          \<and> \<bar>sum_list (map (\<lambda>u. u / sum_list ?us) ?us) - 1\<bar> \<le> 1 / 10 ^ 9"
  proof
    assume "\<exists>u\<in>set ?us. u \<noteq> 0"
    with nonneg have n: "map (\<lambda>w. fdiv w (np_sum (map Fin ?us))) (map Fin ?us) = map Fin (map (\<lambda>u. u / sum_list ?us) ?us)
      \<and> (\<forall>w\<in>set (map (\<lambda>u. u / sum_list ?us) ?us). 0 \<le> w)
      \<and> sum_list (map (\<lambda>u. u / sum_list ?us) ?us) = 1"
      by (rule normalise_draws)
    have a: "map snd (fst (generate_portfolio nxt self g)) = map (\<lambda>u. Fin (u / sum_list ?us)) ?us"
      using n vals by (simp add: comp_def)
    have b: "\<forall>u\<in>set ?us. 0 \<le> u / sum_list ?us"
      using n by simp
    have c: "\<bar>sum_list (map (\<lambda>u. u / sum_list ?us) ?us) - 1\<bar> \<le> 1 / 10 ^ 9"
      using n by simp
    from a b c show "map snd (fst (generate_portfolio nxt self g)) = map (\<lambda>u. Fin (u / sum_list ?us)) ?us
          \<and> (\<forall>u\<in>set ?us. 0 \<le> u / sum_list ?us)
          \<and> \<bar>sum_list (map (\<lambda>u. u / sum_list ?us) ?us) - 1\<bar> \<le> 1 / 10 ^ 9"
      by blast
  qed
  have zero: "(\<forall>u\<in>set ?us. u = 0) \<longrightarrow>
           map snd (fst (generate_portfolio nxt self g)) = replicate (length (tickers self)) NaN"
    using vals len normalise_zero_draws [of ?us] by simp
  from keys count st normal zero show ?thesis
    by blast
qed

lemma harmonic_two: "fst (np_random_random harmonic_draws 2 0) = [1 / 2, 1 / 3]"
  by (simp add: eval_nat_numeral harmonic_draws_def)

lemma zero_two: "fst (np_random_random zero_draws 2 0) = [0, 0]"
  by (simp add: eval_nat_numeral zero_draws_def)

theorem sampler_normalised_witness:
  "distinct (tickers stats2)
   \<and> 0 \<le> fst (harmonic_draws 0) \<and> fst (harmonic_draws 0) < 1
   \<and> fst (np_random_random harmonic_draws (length (tickers stats2)) 0) = [1 / 2, 1 / 3]
   \<and> map snd (fst (generate_portfolio harmonic_draws stats2 0)) = [Fin (3 / 5), Fin (2 / 5)]
   \<and> snd (generate_portfolio harmonic_draws stats2 0) = 2
   \<and> fst (np_random_random zero_draws (length (tickers stats2)) 0) = [0, 0]
   \<and> map snd (fst (generate_portfolio zero_draws stats2 0)) = [NaN, NaN]"
proof -
  have d: "distinct (tickers stats2)"
    by (simp add: stats2_def)
  have l: "length (tickers stats2) = 2"
    by (simp add: stats2_def)
  have r: "\<forall>h. 0 \<le> fst (harmonic_draws h) \<and> fst (harmonic_draws h) < 1"
    by (simp add: harmonic_draws_def)
  have z: "\<forall>h. 0 \<le> fst (zero_draws h) \<and> fst (zero_draws h) < 1"
    by (simp add: zero_draws_def)
  have s: "((\<lambda>h. snd (harmonic_draws h)) ^^ 2) 0 = 2"
    by (simp add: eval_nat_numeral harmonic_draws_def)
  from sampler_normalised [OF d r, of 0]
  have "map snd (fst (generate_portfolio harmonic_draws stats2 0)) = [Fin (3 / 5), Fin (2 / 5)]"
    and "snd (generate_portfolio harmonic_draws stats2 0) = 2"
    using l harmonic_two s by auto
  moreover from sampler_normalised [OF d z, of 0]
  have "map snd (fst (generate_portfolio zero_draws stats2 0)) = [NaN, NaN]"
    using l zero_two by (simp add: eval_nat_numeral)
  ultimately show ?thesis
    using d r l harmonic_two zero_two by simp
qed

text \<open>
  One ticker and a random source whose draws are zero: the sampler returns the weight
  \<open>nan\<close> after a single draw.
\<close>

theorem sampler_zero_draws_counterexample:
  "map snd (fst (generate_portfolio zero_draws flat1 (0::nat))) = [NaN]
   \<and> snd (generate_portfolio zero_draws flat1 (0::nat)) = 1"
  by (simp add: generate_portfolio_def flat1_def zero_draws_def py_dict_def np_sum_def inf_sgn_def)

section \<open>The rows of a Monte Carlo run\<close>

lemma generate_portfolio_trial:
  "generate_portfolio nxt self g = (d, g') \<Longrightarrow>
     map snd d = trial_weights nxt self g \<and> g' = trial_state nxt self g"
  by (simp add: trial_weights_def trial_state_def)

lemma monte_carlo_loop_rows:
  assumes "distinct (tickers self)" and "stats_ready self (length (tickers self))"
  shows "\<exists>rows. monte_carlo_loop nxt self k acc g = (Inr (acc @ rows), (trial_state nxt self ^^ k) g)
    \<and> length rows = k
    \<and> (\<forall>i<k. row_weights (rows ! i) = trial_weights nxt self ((trial_state nxt self ^^ i) g)
          \<and> calculate_portfolio_metrics self (row_weights (rows ! i)) =
              Inr (row_return (rows ! i), row_volatility (rows ! i), row_sharpe_ratio (rows ! i)))"
proof (induction k arbitrary: acc g)
  case 0
  show ?case by simp
next
  case (Suc k)
  let ?w = "trial_weights nxt self g"
  let ?g = "trial_state nxt self g"
  have "stats_ready self (length ?w)"
    using assms by (simp add: length_trial_weights)
  then obtain r v sh where m: "calculate_portfolio_metrics self ?w = Inr (r, v, sh)"
    using scorer_total by blast
  let ?row = "\<lparr>row_return = r, row_volatility = v, row_sharpe_ratio = sh, row_weights = ?w\<rparr>"
  have step: "monte_carlo_loop nxt self (Suc k) acc g = monte_carlo_loop nxt self k (acc @ [?row]) ?g"
    using m by (simp add: split_beta trial_weights_def trial_state_def)
  from Suc.IH [of "acc @ [?row]" ?g] obtain rows where
    run: "monte_carlo_loop nxt self k (acc @ [?row]) ?g =
        (Inr ((acc @ [?row]) @ rows), (trial_state nxt self ^^ k) ?g)"
    and len: "length rows = k"
    and each: "\<forall>i<k. row_weights (rows ! i) = trial_weights nxt self ((trial_state nxt self ^^ i) ?g)
          \<and> calculate_portfolio_metrics self (row_weights (rows ! i)) =
              Inr (row_return (rows ! i), row_volatility (rows ! i), row_sharpe_ratio (rows ! i))"
    by blast
  have a: "monte_carlo_loop nxt self (Suc k) acc g =
      (Inr (acc @ (?row # rows)), (trial_state nxt self ^^ Suc k) g)"
    using step run by (simp add: funpow_swap1)
  have b: "length (?row # rows) = Suc k"
    using len by simp
  have c: "row_weights ((?row # rows) ! i) = trial_weights nxt self ((trial_state nxt self ^^ i) g)
          \<and> calculate_portfolio_metrics self (row_weights ((?row # rows) ! i)) =
              Inr (row_return ((?row # rows) ! i), row_volatility ((?row # rows) ! i),
                   row_sharpe_ratio ((?row # rows) ! i))" if "i < Suc k" for i
  proof (cases i)
    case 0
    then show ?thesis using m by simp
  next
    case (Suc j)
    then have "j < k" using that by simp
    with each have "row_weights (rows ! j) = trial_weights nxt self ((trial_state nxt self ^^ j) ?g)
          \<and> calculate_portfolio_metrics self (row_weights (rows ! j)) =
              Inr (row_return (rows ! j), row_volatility (rows ! j), row_sharpe_ratio (rows ! j))"
      by blast
    then show ?thesis
      unfolding Suc nth_Cons_Suc funpow_Suc_right comp_apply .
  qed
  from a b c show ?case
    by blast
qed

text \<open>
  Claim C3. For a positive number \<open>n\<close> of simulations, distinct tickers and statistics of
  the dimension of the universe, the Monte Carlo run returns exactly \<open>n\<close> rows; row \<open>i\<close>
  holds the weight vector sampled in trial \<open>i\<close> (drawn at the random state the trials
  before it left) and the return, volatility and Sharpe ratio the scorer gives for that
  vector. With \<open>n = 1\<close> there is one row.
\<close>

theorem monte_carlo_rows:
  assumes "0 < n" and "distinct (tickers self)"
    and "stats_ready self (length (tickers self))"
  shows "\<exists>rows. run_monte_carlo nxt self n g = (Inr rows, (trial_state nxt self ^^ nat n) g)
    \<and> int (length rows) = n
    \<and> (\<forall>i<length rows.
          row_weights (rows ! i) = trial_weights nxt self ((trial_state nxt self ^^ i) g)
          \<and> calculate_portfolio_metrics self (row_weights (rows ! i)) =
              Inr (row_return (rows ! i), row_volatility (rows ! i), row_sharpe_ratio (rows ! i)))"
proof -
  from monte_carlo_loop_rows [OF assms(2,3), of nxt "nat n" "[]" g] obtain rows where
    run: "monte_carlo_loop nxt self (nat n) [] g = (Inr ([] @ rows), (trial_state nxt self ^^ nat n) g)"
    and len: "length rows = nat n"
    and each: "\<forall>i<nat n. row_weights (rows ! i) = trial_weights nxt self ((trial_state nxt self ^^ i) g)
          \<and> calculate_portfolio_metrics self (row_weights (rows ! i)) =
              Inr (row_return (rows ! i), row_volatility (rows ! i), row_sharpe_ratio (rows ! i))"
    by blast
  have "run_monte_carlo nxt self n g = (Inr rows, (trial_state nxt self ^^ nat n) g)"
    using run by (simp add: run_monte_carlo_def)
  moreover have "int (length rows) = n"
    using len assms(1) by simp
  ultimately show ?thesis
    using each len by auto
qed

lemma harmonic_trial: "trial_weights harmonic_draws stats2 0 = [Fin (3 / 5), Fin (2 / 5)]"
proof -
  have d: "distinct (tickers stats2)"
    by (simp add: stats2_def)
  have l: "length (tickers stats2) = 2"
    by (simp add: stats2_def)
  show ?thesis
    by (simp add: trial_weights_unfold [OF d] l harmonic_two np_sum_def)
qed

theorem monte_carlo_rows_witness:
  "(0::int) < 1 \<and> distinct (tickers stats2) \<and> stats_ready stats2 (length (tickers stats2))
   \<and> (\<exists>rows. fst (run_monte_carlo harmonic_draws stats2 1 0) = Inr rows
         \<and> length rows = 1
         \<and> row_weights (rows ! 0) = [Fin (3 / 5), Fin (2 / 5)]
         \<and> calculate_portfolio_metrics stats2 [Fin (3 / 5), Fin (2 / 5)] =
             Inr (row_return (rows ! 0), row_volatility (rows ! 0), row_sharpe_ratio (rows ! 0)))"
proof -
  have p: "(0::int) < 1"
    by simp
  have d: "distinct (tickers stats2)"
    by (simp add: stats2_def)
  have s: "stats_ready stats2 (length (tickers stats2))"
    by (simp add: stats_ready_def stats2_def)
  from monte_carlo_rows [OF p d s, of harmonic_draws 0] obtain rows where
    run: "run_monte_carlo harmonic_draws stats2 1 0 = (Inr rows, (trial_state harmonic_draws stats2 ^^ nat 1) 0)"
    and len: "int (length rows) = 1"
    and each: "\<forall>i<length rows.
          row_weights (rows ! i) = trial_weights harmonic_draws stats2 ((trial_state harmonic_draws stats2 ^^ i) 0)
          \<and> calculate_portfolio_metrics stats2 (row_weights (rows ! i)) =
              Inr (row_return (rows ! i), row_volatility (rows ! i), row_sharpe_ratio (rows ! i))"
    by blast
  have l1: "length rows = 1"
    using len by simp
  have w: "row_weights (rows ! 0) = [Fin (3 / 5), Fin (2 / 5)]"
    using each l1 harmonic_trial by simp
  have m: "calculate_portfolio_metrics stats2 [Fin (3 / 5), Fin (2 / 5)] =
             Inr (row_return (rows ! 0), row_volatility (rows ! 0), row_sharpe_ratio (rows ! 0))"
    using each l1 w by force
  show ?thesis
    using p d s run l1 w m by auto
qed

section \<open>The statistics of a price table\<close>

lemma deviation_single:
  "fsub a (np_mean [a]) = Fin 0 \<or> fsub a (np_mean [a]) = NaN"
  by (cases a) (simp_all add: np_mean_def np_sum_def fsub_def)

lemma degenerate_entry:
  assumes "x = Fin 0 \<or> x = NaN" and "y = Fin 0 \<or> y = NaN"
  shows "fmul (np_sum [fmul x y]) (fdiv (Fin 1) (Fin 0)) = NaN"
  using assms by (auto simp: np_sum_def inf_sgn_def)

lemma np_cov_few_rows:
  assumes "length R < 2"
  shows "np_cov n R = replicate n (replicate n NaN)"
proof -
  consider "R = []" | r where "R = [r]"
    using assms by (cases R; cases "tl R") auto
  then show ?thesis
  proof cases
    case 1
    then show ?thesis
      by (simp add: np_cov_def column_def np_sum_def inf_sgn_def map_replicate_const comp_def)
  next
    case 2
    have "fmul (np_sum (map2 fmul [fsub a (np_mean [a])] [fsub b (np_mean [b])])) (fdiv (Fin 1) (Fin 0)) = NaN" for a b
      using degenerate_entry [OF deviation_single [of a] deviation_single [of b]] by simp
    then show ?thesis
      using 2 by (simp add: np_cov_def column_def map_replicate_const comp_def)
  qed
qed

lemma column_Fin:
  assumes "\<forall>r\<in>set Rr. j < length r"
  shows "column j (map (map Fin) Rr) = map Fin (map (\<lambda>r. r ! j) Rr)"
  using assms by (simp add: column_def)

lemma np_mean_Fin: "xs \<noteq> [] \<Longrightarrow> np_mean (map Fin xs) = Fin (spec_mean xs)"
  by (simp add: np_mean_def np_sum_Fin spec_mean_def)

lemma centred_Fin: "map (\<lambda>a. fsub a (Fin c)) (map Fin xs) = map Fin (map (\<lambda>a. a - c) xs)"
  by (simp add: fsub_def)

lemma cov_entry_Fin:
  assumes "length xs = length ys" and "2 \<le> length xs"
  shows "fmul (np_sum (map2 fmul (map Fin (map (\<lambda>a. a - spec_mean xs) xs))
                                  (map Fin (map (\<lambda>a. a - spec_mean ys) ys))))
              (fdiv (Fin 1) (Fin (real (length xs) - 1))) = Fin (spec_cov xs ys)"
proof -
  have l: "length (map (\<lambda>a. a - spec_mean xs) xs) = length (map (\<lambda>a. a - spec_mean ys) ys)"
    using assms(1) by simp
  have "np_sum (map2 fmul (map Fin (map (\<lambda>a. a - spec_mean xs) xs))
                          (map Fin (map (\<lambda>a. a - spec_mean ys) ys)))
      = Fin (\<Sum>t<length (map (\<lambda>a. a - spec_mean ys) ys).
               map (\<lambda>a. a - spec_mean xs) xs ! t * map (\<lambda>a. a - spec_mean ys) ys ! t)"
    using l by (rule dot_Fin)
  also have "(\<Sum>t<length (map (\<lambda>a. a - spec_mean ys) ys).
               map (\<lambda>a. a - spec_mean xs) xs ! t * map (\<lambda>a. a - spec_mean ys) ys ! t)
      = (\<Sum>t<length xs. (xs ! t - spec_mean xs) * (ys ! t - spec_mean ys))"
    using assms(1) by (intro sum.cong) simp_all
  finally show ?thesis
    using assms(2) by (simp add: spec_cov_def)
qed

lemma np_cov_Fin:
  assumes "2 \<le> length Rr" and "\<forall>r\<in>set Rr. length r = n"
  shows "np_cov n (map (map Fin) Rr) =
     map (\<lambda>i. map (\<lambda>j. Fin (spec_cov (map (\<lambda>r. r ! i) Rr) (map (\<lambda>r. r ! j) Rr))) [0..<n]) [0..<n]"
proof -
  let ?col = "\<lambda>j. map (\<lambda>r. r ! j) Rr"
  let ?R = "map (map Fin) Rr"
  have ne: "?col j \<noteq> []" for j
    using assms(1) by auto
  have X: "map (\<lambda>a. fsub a (np_mean (column j ?R))) (column j ?R)
      = map Fin (map (\<lambda>a. a - spec_mean (?col j)) (?col j))" if "j < n" for j
  proof -
    have "column j ?R = map Fin (?col j)"
      using assms(2) that by (intro column_Fin) simp
    then show ?thesis
      by (simp only: np_mean_Fin [OF ne] centred_Fin)
  qed
  have fact: "(if length ?R \<le> 1 then 0 else real (length ?R) - 1) = real (length Rr) - 1"
    using assms(1) by simp
  have entry: "fmul (np_sum (map2 fmul (map (\<lambda>a. fsub a (np_mean (column i ?R))) (column i ?R))
                                       (map (\<lambda>a. fsub a (np_mean (column j ?R))) (column j ?R))))
              (fdiv (Fin 1) (Fin (real (length Rr) - 1))) = Fin (spec_cov (?col i) (?col j))"
    if "i < n" and "j < n" for i j
  proof -
    have "length (?col i) = length (?col j)" and "2 \<le> length (?col i)"
      and "real (length Rr) = real (length (?col i))"
      using assms(1) by simp_all
    then show ?thesis
      using cov_entry_Fin [of "?col i" "?col j"] by (simp only: X [OF that(1)] X [OF that(2)])
  qed
  have "np_cov n ?R =
      map (\<lambda>i. map (\<lambda>j.
          fmul (np_sum (map2 fmul (map (\<lambda>a. fsub a (np_mean (column i ?R))) (column i ?R))
                                  (map (\<lambda>a. fsub a (np_mean (column j ?R))) (column j ?R))))
               (fdiv (Fin 1) (Fin (real (length Rr) - 1)))) [0..<n]) [0..<n]"
    unfolding np_cov_def Let_def fact by (simp only: map_map comp_def)
  also have "\<dots> = map (\<lambda>i. map (\<lambda>j. Fin (spec_cov (?col i) (?col j))) [0..<n]) [0..<n]"
    by (intro map_cong refl entry) simp_all
  finally show ?thesis .
qed


lemma avg_returns_Fin:
  assumes "Rr \<noteq> []" and "\<forall>r\<in>set Rr. length r = n"
  shows "map (\<lambda>j. np_mean (column j (map (map Fin) Rr))) [0..<n] =
     map (\<lambda>j. Fin (spec_mean (map (\<lambda>r. r ! j) Rr))) [0..<n]"
proof -
  have "np_mean (column j (map (map Fin) Rr)) = Fin (spec_mean (map (\<lambda>r. r ! j) Rr))" if "j < n" for j
  proof -
    have "column j (map (map Fin) Rr) = map Fin (map (\<lambda>r. r ! j) Rr)"
      using assms(2) that by (intro column_Fin) simp
    moreover have "map (\<lambda>r. r ! j) Rr \<noteq> []"
      using assms(1) by simp
    ultimately show ?thesis
      using np_mean_Fin [of "map (\<lambda>r. r ! j) Rr"] by simp
  qed
  then show ?thesis
    by (intro map_cong refl) simp
qed

lemma fetch_data_fields:
  "returns_data (fetch_data pad data self) =
      Some (dropna (pct_change pad (length (remdups (tickers self))) data))
   \<and> cov_matrix (fetch_data pad data self) =
      Some (np_cov (length (remdups (tickers self)))
              (dropna (pct_change pad (length (remdups (tickers self))) data)))
   \<and> avg_returns (fetch_data pad data self) =
      Some (map (\<lambda>j. np_mean (column j (dropna (pct_change pad (length (remdups (tickers self))) data))))
              [0..<length (remdups (tickers self))])
   \<and> tickers (fetch_data pad data self) = tickers self
   \<and> portfolio_size (fetch_data pad data self) = portfolio_size self"
  by (simp add: fetch_data_def Let_def)

lemma fetch_data_ready:
  "stats_ready (fetch_data pad data self) (length (remdups (tickers self)))"
  by (simp add: stats_ready_def fetch_data_fields np_cov_def Let_def list_all_iff)

text \<open>
  Claim C6, as the code has it. \<open>fetch_data\<close> raises nothing, whatever the number of
  aligned observations (the rows \<open>R\<close> of returns left after the rows with a missing value
  are dropped). With fewer than two of them every entry of the covariance matrix is
  \<open>nan\<close>. With two or more finite ones the mean vector holds the mean of each column of
  \<open>R\<close> and the covariance matrix the sample covariance (divisor \<open>L - 1\<close>) of each pair of
  columns of the same \<open>R\<close>.
\<close>

theorem fetch_data_statistics:
  assumes "n = length (remdups (tickers self))"
    and "R = dropna (pct_change pad n data)"
  shows "returns_data (fetch_data pad data self) = Some R
    \<and> tickers (fetch_data pad data self) = tickers self
    \<and> (length R < 2 \<longrightarrow>
          cov_matrix (fetch_data pad data self) = Some (replicate n (replicate n NaN)))
    \<and> (\<forall>Rr. R = map (map Fin) Rr \<and> 2 \<le> length Rr \<and> (\<forall>r\<in>set Rr. length r = n) \<longrightarrow>
          avg_returns (fetch_data pad data self) =
            Some (map (\<lambda>j. Fin (spec_mean (map (\<lambda>r. r ! j) Rr))) [0..<n])
        \<and> cov_matrix (fetch_data pad data self) =
            Some (map (\<lambda>i. map (\<lambda>j. Fin (spec_cov (map (\<lambda>r. r ! i) Rr) (map (\<lambda>r. r ! j) Rr)))
                               [0..<n]) [0..<n]))"
proof -
  have f: "returns_data (fetch_data pad data self) = Some R"
    "cov_matrix (fetch_data pad data self) = Some (np_cov n R)"
    "avg_returns (fetch_data pad data self) = Some (map (\<lambda>j. np_mean (column j R)) [0..<n])"
    "tickers (fetch_data pad data self) = tickers self"
    using fetch_data_fields [of pad data self] assms by simp_all
  have few: "length R < 2 \<longrightarrow>
          cov_matrix (fetch_data pad data self) = Some (replicate n (replicate n NaN))"
    using f(2) by (simp add: np_cov_few_rows)
  have enough: "avg_returns (fetch_data pad data self) =
            Some (map (\<lambda>j. Fin (spec_mean (map (\<lambda>r. r ! j) Rr))) [0..<n])
        \<and> cov_matrix (fetch_data pad data self) =
            Some (map (\<lambda>i. map (\<lambda>j. Fin (spec_cov (map (\<lambda>r. r ! i) Rr) (map (\<lambda>r. r ! j) Rr)))
                               [0..<n]) [0..<n])"
    if "R = map (map Fin) Rr" and "2 \<le> length Rr" and "\<forall>r\<in>set Rr. length r = n" for Rr
  proof -
    have "Rr \<noteq> []"
      using that(2) by auto
    then have a: "map (\<lambda>j. np_mean (column j (map (map Fin) Rr))) [0..<n] =
        map (\<lambda>j. Fin (spec_mean (map (\<lambda>r. r ! j) Rr))) [0..<n]"
      using that(3) by (rule avg_returns_Fin)
    have c: "np_cov n (map (map Fin) Rr) =
        map (\<lambda>i. map (\<lambda>j. Fin (spec_cov (map (\<lambda>r. r ! i) Rr) (map (\<lambda>r. r ! j) Rr))) [0..<n]) [0..<n]"
      using that(2,3) by (rule np_cov_Fin)
    show ?thesis
      unfolding f(2,3) that(1) a c by simp
  qed
  from f(1,4) few enough show ?thesis
    by blast
qed

lemma returns_prices3:
  "dropna (pct_change False 1 prices3) = map (map Fin) [[1 / 10], [- (1 / 10)]]"
  by (simp add: dropna_def pct_change_def prices3_def fsub_def)

lemma returns_prices1: "dropna (pct_change False 1 prices1) = []"
  by (simp add: dropna_def pct_change_def prices1_def fsub_def)

theorem fetch_data_statistics_witness:
  "dropna (pct_change False 1 prices3) = map (map Fin) [[1 / 10], [- (1 / 10)]]
   \<and> avg_returns (fetch_data False prices3 (init [''SPY''] 10000000)) = Some [Fin 0]
   \<and> cov_matrix (fetch_data False prices3 (init [''SPY''] 10000000)) = Some [[Fin (1 / 50)]]
   \<and> dropna (pct_change False 1 prices1) = []
   \<and> cov_matrix (fetch_data False prices1 (init [''SPY''] 10000000)) = Some [[NaN]]"
proof -
  let ?self = "init [''SPY''] 10000000"
  have n: "1 = length (remdups (tickers ?self))"
    by (simp add: init_def)
  have R3: "map (map Fin) [[1 / 10], [- (1 / 10)]] = dropna (pct_change False 1 prices3)"
    by (simp only: returns_prices3)
  have R1: "[] = dropna (pct_change False 1 prices1)"
    by (simp only: returns_prices1)
  have m: "spec_mean [1 / 10, - (1 / 10)] = 0"
    by (simp add: spec_mean_def)
  have c: "spec_cov [1 / 10, - (1 / 10)] [1 / 10, - (1 / 10)] = 1 / 50"
    by (simp add: spec_cov_def m lessThan_Suc eval_nat_numeral)
  from fetch_data_statistics [OF n R3]
  have all: "\<forall>Rr. map (map Fin) [[1 / 10], [- (1 / 10)]] = map (map Fin) Rr \<and> 2 \<le> length Rr
        \<and> (\<forall>r\<in>set Rr. length r = 1) \<longrightarrow>
          avg_returns (fetch_data False prices3 ?self) =
            Some (map (\<lambda>j. Fin (spec_mean (map (\<lambda>r. r ! j) Rr))) [0..<1])
        \<and> cov_matrix (fetch_data False prices3 ?self) =
            Some (map (\<lambda>i. map (\<lambda>j. Fin (spec_cov (map (\<lambda>r. r ! i) Rr) (map (\<lambda>r. r ! j) Rr)))
                               [0..<1]) [0..<1])"
    by blast
  from all [rule_format, of "[[1 / 10], [- (1 / 10)]]"]
  have "avg_returns (fetch_data False prices3 ?self) = Some [Fin 0]
      \<and> cov_matrix (fetch_data False prices3 ?self) = Some [[Fin (1 / 50)]]"
    by (simp add: m c)
  moreover from fetch_data_statistics [OF n R1]
  have "cov_matrix (fetch_data False prices1 ?self) = Some [[NaN]]"
    by simp
  ultimately show ?thesis
    using returns_prices3 returns_prices1 by simp
qed

text \<open>
  Two prices of one ticker leave one aligned observation: \<open>fetch_data\<close> returns, with the
  mean \<open>0.1\<close> and the covariance \<open>nan\<close>, with and without filling.
\<close>

theorem one_observation_counterexample:
  "returns_data (fetch_data False prices2 (init [''SPY''] 10000000)) = Some [[Fin (1 / 10)]]
   \<and> avg_returns (fetch_data False prices2 (init [''SPY''] 10000000)) = Some [Fin (1 / 10)]
   \<and> cov_matrix (fetch_data False prices2 (init [''SPY''] 10000000)) = Some [[NaN]]
   \<and> fetch_data True prices2 (init [''SPY''] 10000000) =
       fetch_data False prices2 (init [''SPY''] 10000000)"
proof -
  have r: "dropna (pct_change False 1 prices2) = [[Fin (1 / 10)]]"
    by (simp add: dropna_def pct_change_def prices2_def fsub_def)
  have p: "dropna (pct_change True 1 prices2) = [[Fin (1 / 10)]]"
    by (simp add: dropna_def pct_change_def prices2_def fsub_def)
  have n: "length (remdups (tickers (init [''SPY''] 10000000))) = 1"
    by (simp add: init_def)
  have c: "np_cov 1 [[Fin (1 / 10)]] = [[NaN]]"
    by (simp add: np_cov_few_rows)
  have a: "np_mean (column 0 [[Fin (1 / 10)]]) = Fin (1 / 10)"
    by (simp add: np_mean_def column_def np_sum_def)
  show ?thesis
    using n r p c a by (simp add: fetch_data_def Let_def)
qed

section \<open>The object after a call\<close>

text \<open>
  Each method, run on a session, returns what the function of the same name above computes
  from the object of that session.
\<close>

lemma return_of_field: "return_of (avg_returns self) weights = portfolio_return self weights"
  by (simp add: return_of_def portfolio_return_def)

lemma volatility_of_field: "volatility_of (cov_matrix self) weights = portfolio_volatility self weights"
  by (simp add: volatility_of_def portfolio_volatility_def)

lemma calculate_portfolio_metrics_method_eq:
  "calculate_portfolio_metrics_method weights s = (calculate_portfolio_metrics (fst s) weights, s)"
  by (simp add: calculate_portfolio_metrics_method_def calculate_portfolio_metrics_def read_field_def
      return_of_field volatility_of_field split: sum.splits)

lemma generate_portfolio_method_eq:
  "generate_portfolio_method nxt s =
     (fst (generate_portfolio nxt (fst s) (snd s)),
      (fst s, snd (generate_portfolio nxt (fst s) (snd s))))"
  by (simp add: generate_portfolio_method_def generate_portfolio_def read_field_def draw_global_def
      split_beta Let_def)

lemma monte_carlo_loop_method_eq:
  "monte_carlo_loop_method nxt k acc s =
     (fst (monte_carlo_loop nxt (fst s) k acc (snd s)),
      (fst s, snd (monte_carlo_loop nxt (fst s) k acc (snd s))))"
proof (induction k arbitrary: acc s)
  case 0
  show ?case by simp
next
  case (Suc k)
  show ?case
    by (simp add: generate_portfolio_method_eq calculate_portfolio_metrics_method_eq Suc.IH
        split_beta Let_def split: sum.splits)
qed

lemma run_monte_carlo_method_eq:
  "run_monte_carlo_method nxt n s =
     (fst (run_monte_carlo nxt (fst s) n (snd s)),
      (fst s, snd (run_monte_carlo nxt (fst s) n (snd s))))"
  by (simp add: run_monte_carlo_method_def run_monte_carlo_def monte_carlo_loop_method_eq)

lemma objective_method_eq:
  "(\<lambda>weights. case fst (calculate_portfolio_metrics_method weights s) of
       Inl e \<Rightarrow> Inl e
     | Inr (ret, vol, sharpe) \<Rightarrow> Inr (fneg sharpe)) = neg_sharpe_ratio (fst s)"
  by (rule ext) (simp add: calculate_portfolio_metrics_method_eq neg_sharpe_ratio_def)

lemma optimize_portfolio_method_eq:
  "optimize_portfolio_method minimize r s = (optimize_portfolio minimize (fst s) r, s)"
proof -
  have "optimize_portfolio_method minimize r s =
     (if length (tickers (fst s)) = 0 then (Inl ZeroDivisionError, s)
      else
        (case minimize
                \<lparr>nlp_fun = neg_sharpe_ratio (fst s),
                 nlp_x0 = replicate (length (tickers (fst s))) (Fin (1 / real (length (tickers (fst s))))),
                 nlp_method = ''SLSQP'',
                 nlp_bounds = replicate (length (tickers (fst s))) (Fin 0, Fin 1),
                 nlp_constraints = \<lparr>ctype = ''eq'', cfun = (\<lambda>x. fsub (np_sum x) (Fin 1))\<rparr>\<rparr> of
           Inl e \<Rightarrow> (Inl e, s)
         | Inr result \<Rightarrow>
             (let (m, s2) = calculate_portfolio_metrics_method (res_x result) s
              in case m of
                   Inl e \<Rightarrow> (Inl e, s2)
                 | Inr (opt_return, opt_vol, opt_sharpe) \<Rightarrow>
                     (let (ts', s3) = read_field tickers s2
                      in (Inr [(''weights'', Dict (py_dict (zip ts' (res_x result)))),
                               (''return'', Float opt_return),
                               (''volatility'', Float opt_vol),
                               (''sharpe_ratio'', Float opt_sharpe)], s3)))))"
    by (simp only: optimize_portfolio_method_def read_field_def [of tickers s] Let_def
        case_prod_conv objective_method_eq)
  then show ?thesis
    by (simp add: optimize_portfolio_def slsqp_problem_def initial_weights_def read_field_def
        calculate_portfolio_metrics_method_eq split: sum.splits)
qed

lemma fetch_data_method_eq:
  "fetch_data_method pad data s = ((), (fetch_data pad data (fst s), snd s))"
  by (simp add: fetch_data_method_def fetch_data_def read_field_def write_field_def Let_def)

text \<open>\<open>fetch_data\<close> does change the object.\<close>

lemma fetch_data_method_writes:
  "fst (snd (fetch_data_method False prices3 (init [''SPY''] 10000000, g))) \<noteq> init [''SPY''] 10000000"
  by (simp add: fetch_data_method_eq fetch_data_def init_def Let_def)

text \<open>
  Claim C9. A scoring call, a Monte Carlo run and an optimizer call each leave the
  optimizer object (the tickers, the statistics and the other fields) as it was before the
  call, whether they return or raise; scoring and optimizing leave the random source as it
  was too, the Monte Carlo run advances it.
\<close>

theorem methods_leave_object:
  "snd (calculate_portfolio_metrics_method weights s) = s
   \<and> fst (snd (run_monte_carlo_method nxt n s)) = fst s
   \<and> snd (optimize_portfolio_method minimize r s) = s"
  by (simp add: calculate_portfolio_metrics_method_eq run_monte_carlo_method_eq
      optimize_portfolio_method_eq)

theorem methods_leave_object_witness:
  "snd (calculate_portfolio_metrics_method [Fin 0.5, Fin 0.5] (stats2, 0::nat)) = (stats2, 0)
   \<and> fst (snd (run_monte_carlo_method harmonic_draws 3 (stats2, 0))) = fst (stats2, 0::nat)
   \<and> snd (optimize_portfolio_method converged_solver 0.02 (stats2, 0::nat)) = (stats2, 0)"
  by (rule methods_leave_object)

end
